theory Spec2Isabelle
  imports Main "HOL-Library.Sublist"
begin

section \<open>Python string primitives\<close>

text \<open>
  A Python \<open>str\<close> is modelled by the list of its code points, an Isabelle \<open>string\<close>.
  The primitives below are the ASCII behaviour of \<open>str.isspace\<close>, \<open>str.upper\<close>,
  \<open>str.strip\<close>, \<open>str.split\<close> and of the \<open>re\<close> classes \<open>\s\<close> and \<open>\d\<close>; code
  points from 128 on are outside the model (there they are no space, no digit, no letter,
  and \<open>upper\<close> leaves them alone).
\<close>

definition ord :: "char \<Rightarrow> nat" where
  "ord c = of_char c"

text \<open>
  \<open>str.isspace\<close> and \<open>\s\<close>: TAB, LF, VT, FF, CR, the separators 0x1C..0x1F, the blank,
  NEL (0x85) and the no-break space (0xA0).
\<close>

definition isspace :: "char \<Rightarrow> bool" where
  "isspace c = ((9 \<le> ord c \<and> ord c \<le> 13) \<or> (28 \<le> ord c \<and> ord c \<le> 32)
                \<or> ord c = 133 \<or> ord c = 160)"

definition isdigit :: "char \<Rightarrow> bool" where
  "isdigit c = (48 \<le> ord c \<and> ord c \<le> 57)"

definition is_AZ :: "char \<Rightarrow> bool" where
  "is_AZ c = (65 \<le> ord c \<and> ord c \<le> 90)"

definition is_az :: "char \<Rightarrow> bool" where
  "is_az c = (97 \<le> ord c \<and> ord c \<le> 122)"

definition to_upper :: "char \<Rightarrow> char" where
  "to_upper c = (if is_az c then char_of (ord c - 32) else c)"

definition upper :: "string \<Rightarrow> string" where
  "upper s = map to_upper s"

definition lstrip :: "string \<Rightarrow> string" where
  "lstrip s = dropWhile isspace s"

definition rstrip :: "string \<Rightarrow> string" where
  "rstrip s = rev (dropWhile isspace (rev s))"

definition strip :: "string \<Rightarrow> string" where
  "strip s = rstrip (lstrip s)"

text \<open>\<open>s.split()\<close>: the maximal runs of non-space characters, in order.\<close>

fun split_aux :: "string \<Rightarrow> string \<Rightarrow> string list" where
  "split_aux cur [] = (if cur = [] then [] else [cur])"
| "split_aux cur (c # cs) =
     (if isspace c then (if cur = [] then split_aux [] cs else cur # split_aux [] cs)
      else split_aux (cur @ [c]) cs)"

definition split_ws :: "string \<Rightarrow> string list" where
  "split_ws s = split_aux [] s"

text \<open>\<open>s.split(sep)\<close> for a one-character separator: one more part than separators.\<close>

fun split_on :: "char \<Rightarrow> string \<Rightarrow> string list" where
  "split_on sep [] = [[]]"
| "split_on sep (c # cs) =
     (if c = sep then [] # split_on sep cs
      else (case split_on sep cs of [] \<Rightarrow> [[c]] | t # ts \<Rightarrow> (c # t) # ts))"

text \<open>\<open>sub in s\<close> for strings.\<close>

fun contains :: "string \<Rightarrow> string \<Rightarrow> bool" where
  "contains sub [] = (sub = [])"
| "contains sub (c # cs) = (prefix sub (c # cs) \<or> contains sub cs)"

text \<open>\<open>int(s)\<close> on a string of decimal digits.\<close>

definition py_int :: "string \<Rightarrow> nat" where
  "py_int s = foldl (\<lambda>a c. 10 * a + (ord c - 48)) 0 s"

section \<open>Regular expressions\<close>

text \<open>
  The fragment of \<open>re\<close> the patterns of the program use: a literal character, a character
  class, a class repeated exactly \<open>n\<close> times (\<open>\d{7}\<close>), a class repeated one or more
  times (\<open>[...]+\<close>), an optional item (\<open>S?\<close>) and sequencing. \<open>rx_rest r s\<close> lists what
  is left of \<open>s\<close> after each way of matching \<open>r\<close> at its start.
\<close>

datatype rx =
    Lit char
  | Cls "char \<Rightarrow> bool"
  | Rep nat "char \<Rightarrow> bool"
  | Plus "char \<Rightarrow> bool"
  | Opt rx
  | Seq rx rx

fun plus_rest :: "(char \<Rightarrow> bool) \<Rightarrow> string \<Rightarrow> string list" where
  "plus_rest p [] = []"
| "plus_rest p (c # cs) = (if p c then plus_rest p cs @ [cs] else [])"

fun rx_rest :: "rx \<Rightarrow> string \<Rightarrow> string list" where
  "rx_rest (Lit a) s = (case s of [] \<Rightarrow> [] | c # cs \<Rightarrow> if c = a then [cs] else [])"
| "rx_rest (Cls p) s = (case s of [] \<Rightarrow> [] | c # cs \<Rightarrow> if p c then [cs] else [])"
| "rx_rest (Rep n p) s = (if n \<le> length s \<and> list_all p (take n s) then [drop n s] else [])"
| "rx_rest (Plus p) s = plus_rest p s"
| "rx_rest (Opt r) s = rx_rest r s @ [s]"
| "rx_rest (Seq a b) s = concat (map (rx_rest b) (rx_rest a s))"

text \<open>
  \<open>re.match('^' + r + '$', s)\<close>: \<open>$\<close> matches at the end of the string and also just
  before a newline that ends the string.
\<close>

definition re_match :: "rx \<Rightarrow> string \<Rightarrow> bool" where
  "re_match r s = list_ex (\<lambda>rest. rest = [] \<or> rest = [CHR 0x0A]) (rx_rest r s)"

fun seqs :: "rx list \<Rightarrow> rx" where
  "seqs [] = Opt (Rep 0 (\<lambda>_. True))"
| "seqs [r] = r"
| "seqs (r # rs) = Seq r (seqs rs)"

section \<open>config.py\<close>

definition VALID_RANKS :: "string list" where
  "VALID_RANKS =
    [''REC'', ''PTE'', ''LCP'', ''CPL'', ''CFC'', ''3SG'', ''2SG'', ''1SG'', ''SSG'', ''MSG'',
     ''3WO'', ''2WO'', ''1WO'', ''SWO'', ''CWO'', ''OCT'', ''2LT'', ''LTA'', ''CPT'', ''MAJ'',
     ''LTC'', ''SLTC'', ''COL'', ''BG'', ''MG'', ''LG'']"

datatype UserState =
    IDLE
  | AWAITING_RANK | AWAITING_NAME | AWAITING_COMPANY | AWAITING_UNIT | AWAITING_CONTACT
  | AWAITING_IR_TYPE | AWAITING_NATURE_TYPE | AWAITING_DATE_TIME | AWAITING_SERVICEMAN
  | AWAITING_LOCATION | AWAITING_INJURY | AWAITING_DESCRIPTION | AWAITING_FOLLOWUP
  | EDITING_RANK | EDITING_NAME | EDITING_COMPANY | EDITING_UNIT | EDITING_CONTACT

text \<open>\<open>NRIC_PATTERN = r'^[A-Z]\d{7}[A-Z]$'\<close>\<close>

definition NRIC_PATTERN :: rx where
  "NRIC_PATTERN = seqs [Cls is_AZ, Rep 7 isdigit, Cls is_AZ]"

text \<open>\<open>PES_PATTERN = r'^PES [A-F][1-9]$'\<close>\<close>

definition PES_PATTERN :: rx where
  "PES_PATTERN = seqs [Lit CHR ''P'', Lit CHR ''E'', Lit CHR ''S'', Lit CHR '' '',
     Cls (\<lambda>c. 65 \<le> ord c \<and> ord c \<le> 70), Cls (\<lambda>c. 49 \<le> ord c \<and> ord c \<le> 57)]"

text \<open>\<open>DATE_PATTERN = r'^\d{6}$'\<close>\<close>

definition DATE_PATTERN :: rx where
  "DATE_PATTERN = Rep 6 isdigit"

text \<open>\<open>TIME_PATTERN = r'^\d{4}HRS?$'\<close>\<close>

definition TIME_PATTERN :: rx where
  "TIME_PATTERN = seqs [Rep 4 isdigit, Lit CHR ''H'', Lit CHR ''R'', Opt (Lit CHR ''S'')]"

definition MAX_IR_CONTENT_LENGTH :: nat where
  "MAX_IR_CONTENT_LENGTH = 4000"

section \<open>services/registration\_service.py: the validators\<close>

datatype verror =
    RankEmpty | RankInvalid string
  | NameEmpty | NameChars | NameShort
  | CompanyEmpty | CompanyChars | CompanyShort
  | UnitEmpty | UnitChars | UnitShort
  | ContactEmpty | ContactInvalid
  | ContentEmpty | ContentTooLong
  | DateTimeEmpty | DateTimeFormat | DateFormat | TimeFormat | TimeRange | DateRange
  | ServicemanEmpty | ServicemanParts | NricFormat | PesFormat
  | RankNameEmpty | FourDEmpty | NsfExpected

definition validate_rank :: "string \<Rightarrow> verror + unit" where
  "validate_rank rank0 =
     (let rank = upper (strip rank0) in
      if rank = [] then Inl RankEmpty
      else if rank \<notin> set VALID_RANKS then Inl (RankInvalid rank)
      else Inr ())"

text \<open>\<open>r'^[A-Za-z\s\-\'.]+$'\<close>\<close>

definition name_chars :: "char \<Rightarrow> bool" where
  "name_chars c = (is_AZ c \<or> is_az c \<or> isspace c \<or> c \<in> set [CHR ''-'', CHR 0x27, CHR ''.''])"

definition validate_name :: "string \<Rightarrow> verror + unit" where
  "validate_name name0 =
     (let name = strip name0 in
      if name = [] then Inl NameEmpty
      else if \<not> re_match (Plus name_chars) name then Inl NameChars
      else if length name < 2 then Inl NameShort
      else Inr ())"

text \<open>\<open>r'^[A-Za-z0-9\s\-\'.&()]+$'\<close>\<close>

definition company_chars :: "char \<Rightarrow> bool" where
  "company_chars c = (is_AZ c \<or> is_az c \<or> isdigit c \<or> isspace c
     \<or> c \<in> set [CHR ''-'', CHR 0x27, CHR ''.'', CHR ''&'', CHR ''('', CHR '')''])"

definition validate_company :: "string \<Rightarrow> verror + unit" where
  "validate_company company0 =
     (let company = strip company0 in
      if company = [] then Inl CompanyEmpty
      else if \<not> re_match (Plus company_chars) company then Inl CompanyChars
      else if length company < 1 then Inl CompanyShort
      else Inr ())"

text \<open>\<open>r'^[A-Za-z0-9\s\-\'.&()/]+$'\<close>\<close>

definition unit_chars :: "char \<Rightarrow> bool" where
  "unit_chars c = (is_AZ c \<or> is_az c \<or> isdigit c \<or> isspace c
     \<or> c \<in> set [CHR ''-'', CHR 0x27, CHR ''.'', CHR ''&'', CHR ''('', CHR '')'', CHR ''/''])"

definition validate_unit :: "string \<Rightarrow> verror + unit" where
  "validate_unit unit0 =
     (let u = strip unit0 in
      if u = [] then Inl UnitEmpty
      else if \<not> re_match (Plus unit_chars) u then Inl UnitChars
      else if length u < 1 then Inl UnitShort
      else Inr ())"

text \<open>
  The cleaning of a contact number, written out three times in the source
  (\<open>validate_contact_number\<close>, \<open>register_user\<close>, \<open>update_single_field\<close>):
  \<open>re.sub(r'[\s\-\+\(\)]', '', contact)\<close>, then the prefix \<open>65\<close> of a 10-character
  result is dropped.
\<close>

definition contact_separator :: "char \<Rightarrow> bool" where
  "contact_separator c = (isspace c \<or> c \<in> set [CHR ''-'', CHR ''+'', CHR ''('', CHR '')''])"

definition clean_contact :: "string \<Rightarrow> string" where
  "clean_contact contact =
     (let clean = filter (\<lambda>c. \<not> contact_separator c) contact in
      if prefix ''65'' clean \<and> length clean = 10 then drop 2 clean else clean)"

text \<open>\<open>r'^[89]\d{7}$'\<close>\<close>

definition validate_contact_number :: "string \<Rightarrow> verror + unit" where
  "validate_contact_number contact0 =
     (let contact = strip contact0 in
      if contact = [] then Inl ContactEmpty
      else if \<not> re_match (seqs [Cls (\<lambda>c. c = CHR ''8'' \<or> c = CHR ''9''), Rep 7 isdigit])
                   (clean_contact contact)
      then Inl ContactInvalid
      else Inr ())"

definition validate_ir_content :: "string \<Rightarrow> verror + unit" where
  "validate_ir_content content0 =
     (let content = strip content0 in
      if content = [] then Inl ContentEmpty
      else if length content > MAX_IR_CONTENT_LENGTH then Inl ContentTooLong
      else Inr ())"

definition validate_date_time :: "string \<Rightarrow> verror + string \<times> string" where
  "validate_date_time date_time_input0 =
     (let date_time_input = strip date_time_input0 in
      if date_time_input = [] then Inl DateTimeEmpty
      else case split_ws date_time_input of
        [p0, p1] \<Rightarrow>
          (let date_part = p0; time_part = upper p1 in
           if \<not> re_match DATE_PATTERN date_part then Inl DateFormat
           else if \<not> re_match TIME_PATTERN time_part then Inl TimeFormat
           else
             let time_nums = take 4 time_part;
                 hours = py_int (take 2 time_nums);
                 minutes = py_int (drop 2 time_nums)
             in if hours > 23 \<or> minutes > 59 then Inl TimeRange
             else
               let day = py_int (take 2 date_part);
                   month = py_int (take 2 (drop 2 date_part))
               in if day < 1 \<or> day > 31 \<or> month < 1 \<or> month > 12 then Inl DateRange
               else Inr (date_part, time_nums))
      | _ \<Rightarrow> Inl DateTimeFormat)"

definition validate_serviceman_details :: "string \<Rightarrow> verror + string" where
  "validate_serviceman_details details0 =
     (let details = strip details0 in
      if details = [] then Inl ServicemanEmpty
      else case map strip (split_on CHR ''/'' details) of
        [nric, rank_name, four_d, nsf, pes] \<Rightarrow>
          if \<not> re_match NRIC_PATTERN (upper nric) then Inl NricFormat
          else if \<not> re_match PES_PATTERN (upper pes) then Inl PesFormat
          else if rank_name = [] then Inl RankNameEmpty
          else if four_d = [] then Inl FourDEmpty
          else if upper nsf \<noteq> ''NSF'' then Inl NsfExpected
          else
            let formatted_nric = upper (take 1 nric) @ ''/'' @ upper (drop 1 nric) in
            Inr (formatted_nric @ ''/'' @ upper rank_name @ ''/'' @ upper four_d @ ''/''
                 @ upper nsf @ ''/'' @ upper pes)
      | _ \<Rightarrow> Inl ServicemanParts)"

section \<open>services/registration\_service.py: the profile store\<close>

text \<open>
  A profile is the dictionary \<open>DEFAULT_USER_PROFILE\<close> gives every user: the five
  particulars (\<open>None\<close> until set), the flag \<open>registered\<close>, the state, and the
  scratch dictionary \<open>temp_data\<close>.
\<close>

record profile =
  rank :: "string option"
  full_name :: "string option"
  company :: "string option"
  unit :: "string option"
  contact_number :: "string option"
  registered :: bool
  state :: UserState
  temp_data :: "string \<rightharpoonup> string"

definition DEFAULT_USER_PROFILE :: profile where
  "DEFAULT_USER_PROFILE =
     \<lparr>rank = None, full_name = None, company = None, unit = None, contact_number = None,
      registered = False, state = IDLE, temp_data = Map.empty\<rparr>"

text \<open>
  \<open>RegistrationService\<close> keeps all profiles in the dictionary \<open>users_data\<close>; the data
  file is written by \<open>_save_users\<close> and read by the constructor only, so every read of a
  handler sees \<open>users_data\<close>. A write of the file may fail (\<open>IOError\<close>, answered by
  \<open>False\<close>): \<open>disk_ok s n\<close> tells whether the write attempt number \<open>n\<close> succeeds, and
  \<open>writes s\<close> counts the attempts made so far.
\<close>

record service =
  users_data :: "string \<rightharpoonup> profile"
  disk_ok :: "nat \<Rightarrow> bool"
  writes :: nat

definition save_users :: "service \<Rightarrow> bool \<times> service" where
  "save_users s = (disk_ok s (writes s), s\<lparr>writes := Suc (writes s)\<rparr>)"

definition get_user_profile :: "service \<Rightarrow> string \<Rightarrow> profile \<times> service" where
  "get_user_profile s user_id =
     (case users_data s user_id of
        Some p \<Rightarrow> (p, s)
      | None \<Rightarrow>
          (DEFAULT_USER_PROFILE,
           snd (save_users (s\<lparr>users_data := (users_data s)(user_id \<mapsto> DEFAULT_USER_PROFILE)\<rparr>))))"

text \<open>
  \<open>profile.update(updates)\<close> changes the dictionary held in \<open>users_data\<close>, and only
  then is the file written; the dictionary of updates is a function on profiles here.
\<close>

definition update_user_profile :: "service \<Rightarrow> string \<Rightarrow> (profile \<Rightarrow> profile) \<Rightarrow> bool \<times> service" where
  "update_user_profile s user_id updates =
     (let (p, s1) = get_user_profile s user_id in
      save_users (s1\<lparr>users_data := (users_data s1)(user_id \<mapsto> updates p)\<rparr>))"

definition is_user_registered :: "service \<Rightarrow> string \<Rightarrow> bool \<times> service" where
  "is_user_registered s user_id =
     (let (p, s1) = get_user_profile s user_id in (registered p, s1))"

definition register_user ::
  "service \<Rightarrow> string \<Rightarrow> string \<Rightarrow> string \<Rightarrow> string \<Rightarrow> string \<Rightarrow> string \<Rightarrow> bool \<times> service" where
  "register_user s user_id rank' full_name' company' unit' contact_number' =
     update_user_profile s user_id
       (\<lambda>p. p\<lparr>rank := Some (strip (upper rank')),
              full_name := Some (strip (upper full_name')),
              company := Some (strip (upper company')),
              unit := Some (strip (upper unit')),
              contact_number := Some (clean_contact contact_number'),
              registered := True,
              state := IDLE,
              temp_data := Map.empty\<rparr>)"

record particulars =
  p_rank :: "string option"
  p_full_name :: "string option"
  p_company :: "string option"
  p_unit :: "string option"
  p_contact_number :: "string option"

definition get_user_particulars :: "service \<Rightarrow> string \<Rightarrow> particulars option \<times> service" where
  "get_user_particulars s user_id =
     (let (p, s1) = get_user_profile s user_id in
      if registered p
      then (Some \<lparr>p_rank = rank p, p_full_name = full_name p, p_company = company p,
                   p_unit = unit p, p_contact_number = contact_number p\<rparr>, s1)
      else (None, s1))"

text \<open>Python's truth value of an optional string: neither \<open>None\<close> nor empty.\<close>

definition truthy :: "string option \<Rightarrow> bool" where
  "truthy v = (case v of None \<Rightarrow> False | Some x \<Rightarrow> x \<noteq> [])"

text \<open>What an f-string or \<open>str.format\<close> prints for an optional string.\<close>

definition fmt :: "string option \<Rightarrow> string" where
  "fmt v = (case v of None \<Rightarrow> ''None'' | Some x \<Rightarrow> x)"

definition get_formatted_particulars :: "service \<Rightarrow> string \<Rightarrow> string \<times> service" where
  "get_formatted_particulars s user_id =
     (let (ps, s1) = get_user_particulars s user_id in
      case ps of
        None \<Rightarrow> ([], s1)
      | Some up \<Rightarrow>
          if truthy (p_rank up) \<and> truthy (p_full_name up) \<and> truthy (p_company up)
             \<and> truthy (p_unit up) \<and> truthy (p_contact_number up)
          then (fmt (p_rank up) @ '' '' @ fmt (p_full_name up) @ '' - '' @ fmt (p_company up)
                @ '' - '' @ fmt (p_unit up) @ '' - '' @ fmt (p_contact_number up), s1)
          else ([], s1))"

definition get_user_state :: "service \<Rightarrow> string \<Rightarrow> UserState \<times> service" where
  "get_user_state s user_id =
     (let (p, s1) = get_user_profile s user_id in (state p, s1))"

definition set_user_state :: "service \<Rightarrow> string \<Rightarrow> UserState \<Rightarrow> service" where
  "set_user_state s user_id st =
     (let (p, s1) = get_user_profile s user_id in
      snd (update_user_profile s1 user_id
             (\<lambda>p. if st = IDLE then p\<lparr>state := st, temp_data := Map.empty\<rparr>
                   else p\<lparr>state := st\<rparr>)))"

definition clear_user_state :: "service \<Rightarrow> string \<Rightarrow> service" where
  "clear_user_state s user_id =
     snd (update_user_profile s user_id (\<lambda>p. p\<lparr>state := IDLE, temp_data := Map.empty\<rparr>))"

definition store_user_temp_data :: "service \<Rightarrow> string \<Rightarrow> string \<Rightarrow> string \<Rightarrow> service" where
  "store_user_temp_data s user_id key v =
     (let (p, s1) = get_user_profile s user_id in
      snd (update_user_profile s1 user_id (\<lambda>p. p\<lparr>temp_data := (temp_data p)(key \<mapsto> v)\<rparr>)))"

definition get_user_temp_data :: "service \<Rightarrow> string \<Rightarrow> string \<Rightarrow> string option \<times> service" where
  "get_user_temp_data s user_id key =
     (let (p, s1) = get_user_profile s user_id in (temp_data p key, s1))"

definition clear_user_temp_data :: "service \<Rightarrow> string \<Rightarrow> service" where
  "clear_user_temp_data s user_id =
     (let (p, s1) = get_user_profile s user_id in
      snd (update_user_profile s1 user_id (\<lambda>p. p\<lparr>temp_data := Map.empty\<rparr>)))"

definition ir_keys :: "string list" where
  "ir_keys = [''ir_type'', ''nature_type'', ''date_incident'', ''time_incident'',
              ''serviceman_details'', ''location'', ''injury_damage'', ''description'',
              ''followup'']"

definition start_ir_creation :: "service \<Rightarrow> string \<Rightarrow> service" where
  "start_ir_creation s user_id =
     (let s1 = set_user_state s user_id AWAITING_IR_TYPE;
          (p, s2) = get_user_profile s1 user_id in
      snd (update_user_profile s2 user_id
             (\<lambda>p. p\<lparr>temp_data := foldl (\<lambda>m k. m(k := None)) (temp_data p) ir_keys\<rparr>)))"

definition store_ir_data :: "service \<Rightarrow> string \<Rightarrow> string \<Rightarrow> string \<Rightarrow> service" where
  "store_ir_data s user_id key v = store_user_temp_data s user_id key v"

record ir_data =
  ir_type :: string
  nature_type :: string
  date_incident :: string
  time_incident :: string
  serviceman_details :: string
  location :: string
  injury_damage :: string
  description :: string
  followup :: string

definition get_or :: "(string \<rightharpoonup> string) \<Rightarrow> string \<Rightarrow> string \<Rightarrow> string" where
  "get_or m k d = (case m k of None \<Rightarrow> d | Some v \<Rightarrow> v)"

definition ir_data_of :: "(string \<rightharpoonup> string) \<Rightarrow> ir_data" where
  "ir_data_of m =
     \<lparr>ir_type = get_or m ''ir_type'' [], nature_type = get_or m ''nature_type'' [],
      date_incident = get_or m ''date_incident'' [], time_incident = get_or m ''time_incident'' [],
      serviceman_details = get_or m ''serviceman_details'' [], location = get_or m ''location'' [],
      injury_damage = get_or m ''injury_damage'' [], description = get_or m ''description'' [],
      followup = get_or m ''followup'' []\<rparr>"

definition get_comprehensive_ir_data :: "service \<Rightarrow> string \<Rightarrow> ir_data \<times> service" where
  "get_comprehensive_ir_data s user_id =
     (let (p, s1) = get_user_profile s user_id in (ir_data_of (temp_data p), s1))"

text \<open>
  \<open>updates = {field: ...}\<close>: the handlers pass one of the five keys of the particulars;
  any other key would add an entry the record has no field for, and leaves it as it is.
\<close>

definition set_field :: "string \<Rightarrow> string \<Rightarrow> profile \<Rightarrow> profile" where
  "set_field field v p =
     (if field = ''rank'' then p\<lparr>rank := Some v\<rparr>
      else if field = ''full_name'' then p\<lparr>full_name := Some v\<rparr>
      else if field = ''company'' then p\<lparr>company := Some v\<rparr>
      else if field = ''unit'' then p\<lparr>unit := Some v\<rparr>
      else if field = ''contact_number'' then p\<lparr>contact_number := Some v\<rparr>
      else p)"

definition update_single_field :: "service \<Rightarrow> string \<Rightarrow> string \<Rightarrow> string \<Rightarrow> bool \<times> service" where
  "update_single_field s user_id field v =
     (let (p, s1) = get_user_profile s user_id in
      if \<not> registered p then (False, s1)
      else if field = ''contact_number''
      then update_user_profile s1 user_id (set_field field (clean_contact v))
      else update_user_profile s1 user_id (set_field field (strip (upper v))))"

definition complete_comprehensive_ir_creation :: "service \<Rightarrow> string \<Rightarrow> ir_data \<times> service" where
  "complete_comprehensive_ir_creation s user_id =
     (let (d, s1) = get_comprehensive_ir_data s user_id in
      (d, set_user_state s1 user_id IDLE))"

section \<open>services/response\_service.py\<close>

text \<open>
  What a handler sends: one constructor for each message text of \<open>ResponseService\<close> and
  of the handlers, with the values the text is built from. A report carries its text.
\<close>

datatype reply =
    RankPrompt | NamePrompt | CompanyPrompt | UnitPrompt | ContactPrompt
  | RegistrationSuccess string
  | WelcomeBack string
  | DateTimePrompt | ServicemanPrompt | LocationPrompt | InjuryPrompt
  | DescriptionPrompt | FollowupPrompt
  | DetailsView particulars
  | EditPrompt string string
  | FieldUpdated string
  | DetailsUpdated "particulars option"
  | Report string
  | IRCompletion
  | ValidationError verror
  | SystemError
  | UseStart
  | SomethingWrong
  | RegisterFirst
  | SelectIRType | InvalidIRType
  | SelectNature | InvalidNature
  | ErrorRetrieving
  | InvalidField

definition join_lines :: "string list \<Rightarrow> string" where
  "join_lines ls = (case ls of [] \<Rightarrow> [] | l # rest \<Rightarrow> l @ concat (map (\<lambda>x. CHR 0x0A # x) rest))"

text \<open>\<open>IR_TEMPLATE.format(...)\<close>, line by line.\<close>

definition generate_comprehensive_ir_report :: "ir_data \<Rightarrow> particulars \<Rightarrow> string" where
  "generate_comprehensive_ir_report d up = join_lines
     [date_incident d @ '' / '' @ fmt (p_unit up) @ '' / XX / '' @ fmt (p_company up)
        @ '' - '' @ ir_type d,
      ''1) Nature and Type of Incident:'',
      nature_type d,
      [],
      ''2) Date and Time of Incident:'',
      date_incident d @ '' '' @ time_incident d @ ''HRS'',
      [],
      ''3) Serviceman Involved:'',
      serviceman_details d,
      [],
      ''4) Location of Incident:'',
      location d,
      [],
      ''5) Injury/Damage:'',
      injury_damage d,
      [],
      ''6) Brief Description of Incident:'',
      description d,
      [],
      ''7) Follow Up Updates:'',
      followup d,
      [],
      ''8) Stakeholder informed:'',
      ''a) NOK:YES'',
      ''b) Date/Time of Verbal Report to GSOC:'',
      ''c) Date/Time of ESIS Report:'',
      ''d) Date/Time reported to 9DIV DOO:'',
      [],
      ''9) Unit Reporting POC:'',
      fmt (p_rank up) @ '' '' @ fmt (p_full_name up),
      ''PC / '' @ fmt (p_company up) @ ''/ '' @ fmt (p_unit up),
      fmt (p_contact_number up)]"

section \<open>handlers/command\_handler.py\<close>

definition start_command :: "service \<Rightarrow> string \<Rightarrow> reply list \<times> service" where
  "start_command s user_id =
     (let (reg, s1) = is_user_registered s user_id in
      if reg then
        (let (ps, s2) = get_formatted_particulars s1 user_id in
         ([WelcomeBack ps], set_user_state s2 user_id IDLE))
      else ([RankPrompt], set_user_state s1 user_id AWAITING_RANK))"

section \<open>handlers/message\_handler.py\<close>

definition handle_rank_input :: "service \<Rightarrow> string \<Rightarrow> string \<Rightarrow> reply list \<times> service" where
  "handle_rank_input s user_id rank_input =
     (case validate_rank rank_input of
        Inr _ \<Rightarrow>
          (let clean_rank = strip (upper rank_input);
               s1 = store_user_temp_data s user_id ''rank'' clean_rank in
           ([NamePrompt], set_user_state s1 user_id AWAITING_NAME))
      | Inl e \<Rightarrow> ([ValidationError e], s))"

definition handle_name_input :: "service \<Rightarrow> string \<Rightarrow> string \<Rightarrow> reply list \<times> service" where
  "handle_name_input s user_id name_input =
     (case validate_name name_input of
        Inr _ \<Rightarrow>
          (let clean_name = strip (upper name_input);
               s1 = store_user_temp_data s user_id ''full_name'' clean_name in
           ([CompanyPrompt], set_user_state s1 user_id AWAITING_COMPANY))
      | Inl e \<Rightarrow> ([ValidationError e], s))"

definition handle_company_input :: "service \<Rightarrow> string \<Rightarrow> string \<Rightarrow> reply list \<times> service" where
  "handle_company_input s user_id company_input =
     (case validate_company company_input of
        Inr _ \<Rightarrow>
          (let clean_company = strip (upper company_input);
               s1 = store_user_temp_data s user_id ''company'' clean_company in
           ([UnitPrompt], set_user_state s1 user_id AWAITING_UNIT))
      | Inl e \<Rightarrow> ([ValidationError e], s))"

definition handle_unit_input :: "service \<Rightarrow> string \<Rightarrow> string \<Rightarrow> reply list \<times> service" where
  "handle_unit_input s user_id unit_input =
     (case validate_unit unit_input of
        Inr _ \<Rightarrow>
          (let clean_unit = strip (upper unit_input);
               s1 = store_user_temp_data s user_id ''unit'' clean_unit in
           ([ContactPrompt], set_user_state s1 user_id AWAITING_CONTACT))
      | Inl e \<Rightarrow> ([ValidationError e], s))"

definition handle_contact_input :: "service \<Rightarrow> string \<Rightarrow> string \<Rightarrow> reply list \<times> service" where
  "handle_contact_input s user_id contact_input =
     (case validate_contact_number contact_input of
        Inr _ \<Rightarrow>
          (let (stored_rank, s1) = get_user_temp_data s user_id ''rank'';
               (stored_name, s2) = get_user_temp_data s1 user_id ''full_name'';
               (stored_company, s3) = get_user_temp_data s2 user_id ''company'';
               (stored_unit, s4) = get_user_temp_data s3 user_id ''unit'' in
           if \<not> (truthy stored_rank \<and> truthy stored_name \<and> truthy stored_company
                   \<and> truthy stored_unit)
           then ([SomethingWrong], s4)
           else
             (let (success, s5) =
                    register_user s4 user_id (the stored_rank) (the stored_name)
                      (the stored_company) (the stored_unit) contact_input in
              if success then
                (let (ps, s6) = get_formatted_particulars s5 user_id in
                 ([RegistrationSuccess ps], s6))
              else ([SystemError], s5)))
      | Inl e \<Rightarrow> ([ValidationError e], s))"

definition handle_date_time_input :: "service \<Rightarrow> string \<Rightarrow> string \<Rightarrow> reply list \<times> service" where
  "handle_date_time_input s user_id date_time_input =
     (case validate_date_time date_time_input of
        Inr (date_part, time_part) \<Rightarrow>
          (let s1 = store_ir_data s user_id ''date_incident'' date_part;
               s2 = store_ir_data s1 user_id ''time_incident'' time_part in
           ([ServicemanPrompt], set_user_state s2 user_id AWAITING_SERVICEMAN))
      | Inl e \<Rightarrow> ([ValidationError e], s))"

definition handle_serviceman_input :: "service \<Rightarrow> string \<Rightarrow> string \<Rightarrow> reply list \<times> service" where
  "handle_serviceman_input s user_id serviceman_input =
     (case validate_serviceman_details serviceman_input of
        Inr formatted_details \<Rightarrow>
          (let s1 = store_ir_data s user_id ''serviceman_details'' formatted_details in
           ([LocationPrompt], set_user_state s1 user_id AWAITING_LOCATION))
      | Inl e \<Rightarrow> ([ValidationError e], s))"

definition handle_location_input :: "service \<Rightarrow> string \<Rightarrow> string \<Rightarrow> reply list \<times> service" where
  "handle_location_input s user_id location_input =
     (case validate_ir_content location_input of
        Inr _ \<Rightarrow>
          (let s1 = store_ir_data s user_id ''location'' (strip location_input) in
           ([InjuryPrompt], set_user_state s1 user_id AWAITING_INJURY))
      | Inl e \<Rightarrow> ([ValidationError e], s))"

definition handle_injury_input :: "service \<Rightarrow> string \<Rightarrow> string \<Rightarrow> reply list \<times> service" where
  "handle_injury_input s user_id injury_input =
     (case validate_ir_content injury_input of
        Inr _ \<Rightarrow>
          (let s1 = store_ir_data s user_id ''injury_damage'' (strip injury_input) in
           ([DescriptionPrompt], set_user_state s1 user_id AWAITING_DESCRIPTION))
      | Inl e \<Rightarrow> ([ValidationError e], s))"

text \<open>
  \<open>_generate_comprehensive_ir_report\<close>: for a user who is not registered,
  \<open>get_user_particulars\<close> gives \<open>None\<close>, the formatting raises, and the handler's own
  \<open>except\<close> answers with the system error; the state was set to idle before.
\<close>

definition generate_ir_report :: "service \<Rightarrow> string \<Rightarrow> reply list \<times> service" where
  "generate_ir_report s user_id =
     (let (d, s1) = complete_comprehensive_ir_creation s user_id;
          (ps, s2) = get_user_particulars s1 user_id in
      case ps of
        None \<Rightarrow> ([SystemError], s2)
      | Some up \<Rightarrow> ([Report (generate_comprehensive_ir_report d up), IRCompletion], s2))"

definition FINAL_FOLLOWUP :: string where
  "FINAL_FOLLOWUP = ''This serves as a final report''"

definition handle_description_input :: "service \<Rightarrow> string \<Rightarrow> string \<Rightarrow> reply list \<times> service" where
  "handle_description_input s user_id description_input =
     (case validate_ir_content description_input of
        Inr _ \<Rightarrow>
          (let s1 = store_ir_data s user_id ''description'' (strip description_input);
               (ir_type', s2) = get_user_temp_data s1 user_id ''ir_type'' in
           if truthy ir_type' \<and> contains ''FINAL'' (the ir_type')
           then generate_ir_report (store_ir_data s2 user_id ''followup'' FINAL_FOLLOWUP) user_id
           else ([FollowupPrompt], set_user_state s2 user_id AWAITING_FOLLOWUP))
      | Inl e \<Rightarrow> ([ValidationError e], s))"

definition handle_followup_input :: "service \<Rightarrow> string \<Rightarrow> string \<Rightarrow> reply list \<times> service" where
  "handle_followup_input s user_id followup_input =
     (case validate_ir_content followup_input of
        Inr _ \<Rightarrow>
          generate_ir_report (store_ir_data s user_id ''followup'' (strip followup_input)) user_id
      | Inl e \<Rightarrow> ([ValidationError e], s))"

text \<open>
  The five edit handlers differ in the validator, the key and the label only; they are
  one function of these three here.
\<close>

definition handle_field_edit ::
  "(string \<Rightarrow> verror + unit) \<Rightarrow> string \<Rightarrow> string \<Rightarrow> service \<Rightarrow> string \<Rightarrow> string
   \<Rightarrow> reply list \<times> service" where
  "handle_field_edit validate field label s user_id input =
     (case validate input of
        Inr _ \<Rightarrow>
          (let (success, s1) = update_single_field s user_id field input in
           if success then
             (let (ps, s2) = get_user_particulars s1 user_id in
              ([FieldUpdated label, DetailsUpdated ps], set_user_state s2 user_id IDLE))
           else ([SystemError], s1))
      | Inl e \<Rightarrow> ([ValidationError e], s))"

definition handle_rank_edit :: "service \<Rightarrow> string \<Rightarrow> string \<Rightarrow> reply list \<times> service" where
  "handle_rank_edit = handle_field_edit validate_rank ''rank'' ''Rank''"

definition handle_name_edit :: "service \<Rightarrow> string \<Rightarrow> string \<Rightarrow> reply list \<times> service" where
  "handle_name_edit = handle_field_edit validate_name ''full_name'' ''Name''"

definition handle_company_edit :: "service \<Rightarrow> string \<Rightarrow> string \<Rightarrow> reply list \<times> service" where
  "handle_company_edit = handle_field_edit validate_company ''company'' ''Company''"

definition handle_unit_edit :: "service \<Rightarrow> string \<Rightarrow> string \<Rightarrow> reply list \<times> service" where
  "handle_unit_edit = handle_field_edit validate_unit ''unit'' ''Unit''"

definition handle_contact_edit :: "service \<Rightarrow> string \<Rightarrow> string \<Rightarrow> reply list \<times> service" where
  "handle_contact_edit = handle_field_edit validate_contact_number ''contact_number'' ''Contact''"

fun message_dispatch :: "UserState \<Rightarrow> service \<Rightarrow> string \<Rightarrow> string \<Rightarrow> reply list \<times> service" where
  "message_dispatch AWAITING_RANK = handle_rank_input"
| "message_dispatch AWAITING_NAME = handle_name_input"
| "message_dispatch AWAITING_COMPANY = handle_company_input"
| "message_dispatch AWAITING_UNIT = handle_unit_input"
| "message_dispatch AWAITING_CONTACT = handle_contact_input"
| "message_dispatch AWAITING_DATE_TIME = handle_date_time_input"
| "message_dispatch AWAITING_SERVICEMAN = handle_serviceman_input"
| "message_dispatch AWAITING_LOCATION = handle_location_input"
| "message_dispatch AWAITING_INJURY = handle_injury_input"
| "message_dispatch AWAITING_DESCRIPTION = handle_description_input"
| "message_dispatch AWAITING_FOLLOWUP = handle_followup_input"
| "message_dispatch EDITING_RANK = handle_rank_edit"
| "message_dispatch EDITING_NAME = handle_name_edit"
| "message_dispatch EDITING_COMPANY = handle_company_edit"
| "message_dispatch EDITING_UNIT = handle_unit_edit"
| "message_dispatch EDITING_CONTACT = handle_contact_edit"
| "message_dispatch _ = (\<lambda>s user_id text. ([UseStart], s))"

definition handle_message :: "service \<Rightarrow> string \<Rightarrow> string \<Rightarrow> reply list \<times> service" where
  "handle_message s user_id text =
     (let message_text = strip text;
          (current_state, s1) = get_user_state s user_id in
      message_dispatch current_state s1 user_id message_text)"

section \<open>handlers/callback\_handler.py\<close>

definition handle_new_ir :: "service \<Rightarrow> string \<Rightarrow> reply list \<times> service" where
  "handle_new_ir s user_id =
     (let (reg, s1) = is_user_registered s user_id in
      if \<not> reg then ([RegisterFirst], s1)
      else ([SelectIRType], start_ir_creation s1 user_id))"

definition ir_type_map :: "string \<rightharpoonup> string" where
  "ir_type_map = map_of
     [(''ir_type_initial'', ''INITIAL''),
      (''ir_type_initial_and_final'', ''INITIAL & FINAL''),
      (''ir_type_update'', ''UPDATE''),
      (''ir_type_update_and_final'', ''UPDATE & FINAL'')]"

definition handle_ir_type_selection :: "service \<Rightarrow> string \<Rightarrow> string \<Rightarrow> reply list \<times> service" where
  "handle_ir_type_selection s user_id callback_data =
     (let t = ir_type_map callback_data in
      if \<not> truthy t then ([InvalidIRType], s)
      else
        (let s1 = store_ir_data s user_id ''ir_type'' (the t) in
         ([SelectNature], set_user_state s1 user_id AWAITING_NATURE_TYPE)))"

definition nature_type_map :: "string \<rightharpoonup> string" where
  "nature_type_map = map_of
     [(''nature_non_training_related'', ''NON-TRAINING RELATED''),
      (''nature_training_related'', ''TRAINING RELATED'')]"

definition handle_nature_type_selection :: "service \<Rightarrow> string \<Rightarrow> string \<Rightarrow> reply list \<times> service" where
  "handle_nature_type_selection s user_id callback_data =
     (let t = nature_type_map callback_data in
      if \<not> truthy t then ([InvalidNature], s)
      else
        (let s1 = store_ir_data s user_id ''nature_type'' (the t) in
         ([DateTimePrompt], set_user_state s1 user_id AWAITING_DATE_TIME)))"

definition handle_my_details :: "service \<Rightarrow> string \<Rightarrow> reply list \<times> service" where
  "handle_my_details s user_id =
     (let (reg, s1) = is_user_registered s user_id in
      if \<not> reg then ([RegisterFirst], s1)
      else
        (let (ps, s2) = get_user_particulars s1 user_id in
         case ps of
           None \<Rightarrow> ([ErrorRetrieving], s2)
         | Some up \<Rightarrow> ([DetailsView up], snd (get_formatted_particulars s2 user_id))))"

text \<open>\<open>s.replace(old, '')\<close>: every occurrence of \<open>old\<close>, from the left, is cut out.\<close>

fun remove_all :: "string \<Rightarrow> nat \<Rightarrow> string \<Rightarrow> string" where
  "remove_all old skip [] = []"
| "remove_all old skip (c # cs) =
     (if skip > 0 then remove_all old (skip - 1) cs
      else if old \<noteq> [] \<and> prefix old (c # cs) then remove_all old (length old - 1) cs
      else c # remove_all old 0 cs)"

definition field_state_map :: "string \<rightharpoonup> UserState" where
  "field_state_map = map_of
     [(''rank'', EDITING_RANK), (''name'', EDITING_NAME), (''company'', EDITING_COMPANY),
      (''unit'', EDITING_UNIT), (''contact'', EDITING_CONTACT)]"

definition field_current :: "string \<Rightarrow> particulars \<Rightarrow> string" where
  "field_current field up =
     (if field = ''rank'' then fmt (p_rank up)
      else if field = ''name'' then fmt (p_full_name up)
      else if field = ''company'' then fmt (p_company up)
      else if field = ''unit'' then fmt (p_unit up)
      else fmt (p_contact_number up))"

definition handle_edit_field :: "service \<Rightarrow> string \<Rightarrow> string \<Rightarrow> reply list \<times> service" where
  "handle_edit_field s user_id callback_data =
     (let field = remove_all ''edit_'' 0 callback_data;
          (ps, s1) = get_user_particulars s user_id in
      case ps of
        None \<Rightarrow> ([ErrorRetrieving], s1)
      | Some up \<Rightarrow>
          (case field_state_map field of
             None \<Rightarrow> ([InvalidField], s1)
           | Some st \<Rightarrow>
               ([EditPrompt field (field_current field up)], set_user_state s1 user_id st)))"

definition handle_back_to_main :: "service \<Rightarrow> string \<Rightarrow> reply list \<times> service" where
  "handle_back_to_main s user_id =
     (let (ps, s1) = get_formatted_particulars s user_id in
      ([WelcomeBack ps], set_user_state s1 user_id IDLE))"

definition handle_callback :: "service \<Rightarrow> string \<Rightarrow> string \<Rightarrow> reply list \<times> service" where
  "handle_callback s user_id data =
     (if data = ''new_ir'' then handle_new_ir s user_id
      else if prefix ''ir_type_'' data then handle_ir_type_selection s user_id data
      else if prefix ''nature_'' data then handle_nature_type_selection s user_id data
      else if data = ''my_details'' then handle_my_details s user_id
      else if prefix ''edit_'' data then handle_edit_field s user_id data
      else if data = ''back_to_main'' then handle_back_to_main s user_id
      else ([], s))"

section \<open>main.py: the three kinds of inbound event\<close>

datatype event =
    Start string
  | Message string string
  | Callback string string

fun handle_event :: "service \<Rightarrow> event \<Rightarrow> reply list \<times> service" where
  "handle_event s (Start user_id) = start_command s user_id"
| "handle_event s (Message user_id text) = handle_message s user_id text"
| "handle_event s (Callback user_id data) = handle_callback s user_id data"

fun run :: "service \<Rightarrow> event list \<Rightarrow> service" where
  "run s [] = s"
| "run s (e # es) = run (snd (handle_event s e)) es"
section \<open>Observing the store\<close>

text \<open>
  What \<open>_get_user_profile\<close> answers for a user: the stored profile, or the default one
  that the call would create.
\<close>

definition profile_of :: "service \<Rightarrow> string \<Rightarrow> profile" where
  "profile_of s user_id =
     (case users_data s user_id of None \<Rightarrow> DEFAULT_USER_PROFILE | Some p \<Rightarrow> p)"

definition particulars_of :: "profile \<Rightarrow> particulars" where
  "particulars_of p =
     \<lparr>p_rank = rank p, p_full_name = full_name p, p_company = company p,
      p_unit = unit p, p_contact_number = contact_number p\<rparr>"

text \<open>A registered user \<open>u\<close> in a given state with a given scratch, for the examples.\<close>

definition example_user :: "UserState \<Rightarrow> (string \<rightharpoonup> string) \<Rightarrow> profile" where
  "example_user st td =
     \<lparr>rank = Some ''CPL'', full_name = Some ''TAN AH KOW'', company = Some ''ALPHA'',
      unit = Some ''1 SIR'', contact_number = Some ''91234567'', registered = True,
      state = st, temp_data = td\<rparr>"

definition example_service :: "profile \<Rightarrow> bool \<Rightarrow> service" where
  "example_service p ok = \<lparr>users_data = [''u'' \<mapsto> p], disk_ok = (\<lambda>_. ok), writes = 0\<rparr>"


text \<open>The invariant of the data model: an idle user has an empty scratch.\<close>

definition idle_scratch_empty :: "service \<Rightarrow> bool" where
  "idle_scratch_empty s =
     (\<forall>u p. users_data s u = Some p \<longrightarrow> state p = IDLE \<longrightarrow> temp_data p = Map.empty)"

text \<open>
  A step from \<open>s\<close> with result \<open>r\<close> is harmless for the invariant when every profile
  either keeps its state and its scratch or is not left idle with a non-empty scratch.
\<close>

definition step_ok :: "service \<Rightarrow> reply list \<times> service \<Rightarrow> bool" where
  "step_ok s r =
     (\<forall>v. (state (profile_of (snd r) v) = state (profile_of s v)
             \<and> temp_data (profile_of (snd r) v) = temp_data (profile_of s v))
          \<or> (state (profile_of (snd r) v) = IDLE
               \<longrightarrow> temp_data (profile_of (snd r) v) = Map.empty))"

text \<open>Two stores that answer every \<open>_get_user_profile\<close> alike, and two results that agree
  in the replies and in the profiles.\<close>

definition same_view :: "service \<Rightarrow> service \<Rightarrow> bool" where
  "same_view s t = (\<forall>v. profile_of s v = profile_of t v)"

definition same_result :: "reply list \<times> service \<Rightarrow> reply list \<times> service \<Rightarrow> bool" where
  "same_result r r' = (fst r = fst r' \<and> same_view (snd r) (snd r'))"

text \<open>The states whose text handler looks at the result of the write.\<close>

definition checks_write :: "UserState \<Rightarrow> bool" where
  "checks_write st = (st \<in> set [AWAITING_CONTACT, EDITING_RANK, EDITING_NAME, EDITING_COMPANY,
                                 EDITING_UNIT, EDITING_CONTACT])"

text \<open>
  The date/time rule in the words of the specification: two tokens, six digits with the
  day in 1..31 and the month in 1..12, then four digits followed by an optional \<open>HRS\<close>,
  compared without regard to case, with the hour at most 23 and the minute at most 59.
\<close>

definition spec_date_time_ok :: "string \<Rightarrow> bool" where
  "spec_date_time_ok inp =
     (case split_ws inp of
        [d, tok] \<Rightarrow>
          length d = 6 \<and> list_all isdigit d
          \<and> 1 \<le> py_int (take 2 d) \<and> py_int (take 2 d) \<le> 31
          \<and> 1 \<le> py_int (take 2 (drop 2 d)) \<and> py_int (take 2 (drop 2 d)) \<le> 12
          \<and> length (take 4 (upper tok)) = 4 \<and> list_all isdigit (take 4 (upper tok))
          \<and> (drop 4 (upper tok) = [] \<or> drop 4 (upper tok) = ''HRS'')
          \<and> py_int (take 2 (upper tok)) \<le> 23
          \<and> py_int (take 2 (drop 2 (upper tok))) \<le> 59
      | _ \<Rightarrow> False)"








section \<open>Facts about the string primitives\<close>

lemma ord_to_upper: "ord (to_upper c) = (if is_az c then ord c - 32 else ord c)"
proof (cases "is_az c")
  case True
  then have "ord c - 32 < 256" unfolding is_az_def by arith
  then have "(ord c - 32) mod 256 = ord c - 32" by simp
  then show ?thesis using True by (simp add: to_upper_def ord_def)
next
  case False
  then show ?thesis by (simp add: to_upper_def)
qed

lemma isspace_to_upper [simp]: "isspace (to_upper c) = isspace c"
  by (auto simp: isspace_def ord_to_upper is_az_def)

lemma isdigit_to_upper [simp]: "isdigit (to_upper c) = isdigit c"
  by (auto simp: isdigit_def ord_to_upper is_az_def)


lemma is_az_to_upper [simp]: "\<not> is_az (to_upper c)"
  by (auto simp: ord_to_upper is_az_def)

lemma to_upper_idem [simp]: "to_upper (to_upper c) = to_upper c"
  by (simp add: to_upper_def[of "to_upper c"])

lemma upper_upper [simp]: "upper (upper s) = upper s"
  by (simp add: upper_def)

lemma length_upper [simp]: "length (upper s) = length s"
  by (simp add: upper_def)

lemma upper_Nil [simp]: "(upper s = []) = (s = [])"
  by (simp add: upper_def)

lemma upper_append: "upper (a @ b) = upper a @ upper b"
  by (simp add: upper_def)

lemma lstrip_upper: "lstrip (upper s) = upper (lstrip s)"
  by (simp add: lstrip_def upper_def dropWhile_map comp_def)

lemma rstrip_upper: "rstrip (upper s) = upper (rstrip s)"
  by (simp add: rstrip_def upper_def dropWhile_map comp_def rev_map)

lemma strip_upper: "strip (upper s) = upper (strip s)"
  by (simp add: strip_def lstrip_upper rstrip_upper)

lemma rstrip_Cons: "rstrip (x # xs) = (if list_all isspace (x # xs) then [] else x # rstrip xs)"
  by (auto simp: rstrip_def dropWhile_append list_all_iff)

lemma lstrip_idem: "lstrip (lstrip s) = lstrip s"
  by (simp add: lstrip_def dropWhile_idem)

lemma rstrip_idem: "rstrip (rstrip s) = rstrip s"
  by (simp add: rstrip_def dropWhile_idem)

lemma lstrip_rstrip_lstrip: "lstrip (rstrip (lstrip s)) = rstrip (lstrip s)"
proof (cases "lstrip s")
  case Nil
  then have "rstrip (lstrip s) = []" by (simp add: rstrip_def)
  then show ?thesis by (simp add: lstrip_def)
next
  case (Cons x xs)
  then have "\<not> isspace x" using hd_dropWhile[of isspace s] by (auto simp: lstrip_def)
  then show ?thesis using Cons by (simp add: rstrip_Cons) (simp add: lstrip_def)
qed

lemma strip_strip [simp]: "strip (strip s) = strip s"
  by (simp add: strip_def lstrip_rstrip_lstrip rstrip_idem)

lemma strip_Nil_iff: "(strip s = []) = list_all isspace s"
proof -
  have "(rstrip t = []) = list_all isspace t" for t
    by (auto simp: rstrip_def list_all_iff dropWhile_eq_Nil_conv)
  moreover have "list_all isspace (lstrip s) = list_all isspace s"
    by (induction s) (auto simp: lstrip_def)
  ultimately show ?thesis by (simp add: strip_def)
qed


lemma split_aux_nospace:
  "t \<in> set (split_aux cur s) \<Longrightarrow> \<forall>c\<in>set cur. \<not> isspace c \<Longrightarrow> c \<in> set t \<Longrightarrow> \<not> isspace c"
  by (induction cur s rule: split_aux.induct) (auto split: if_splits)

lemma split_ws_nospace: "t \<in> set (split_ws s) \<Longrightarrow> c \<in> set t \<Longrightarrow> \<not> isspace c"
  using split_aux_nospace[of t "[]" s c] by (simp add: split_ws_def)

lemma split_aux_lstrip: "split_aux [] (lstrip s) = split_aux [] s"
  by (induction s) (auto simp: lstrip_def)

lemma split_aux_spaces: "list_all isspace w \<Longrightarrow> split_aux cur w = (if cur = [] then [] else [cur])"
  by (induction w arbitrary: cur) auto

lemma split_aux_append_spaces: "list_all isspace w \<Longrightarrow> split_aux cur (s @ w) = split_aux cur s"
  by (induction cur s rule: split_aux.induct) (auto simp: split_aux_spaces)

lemma rstrip_decomp: "\<exists>w. list_all isspace w \<and> s = rstrip s @ w"
proof -
  have "rev s = takeWhile isspace (rev s) @ dropWhile isspace (rev s)" by simp
  then have "s = rev (dropWhile isspace (rev s)) @ rev (takeWhile isspace (rev s))"
    by (metis rev_append rev_rev_ident)
  moreover have "list_all isspace (rev (takeWhile isspace (rev s)))"
    by (auto simp: list_all_iff dest: set_takeWhileD)
  ultimately show ?thesis unfolding rstrip_def by blast
qed

lemma split_aux_rstrip: "split_aux cur (rstrip s) = split_aux cur s"
proof -
  obtain w where w: "list_all isspace w" "s = rstrip s @ w" using rstrip_decomp by blast
  show ?thesis using split_aux_append_spaces[OF w(1), of cur "rstrip s"] w(2) by simp
qed

lemma split_ws_strip: "split_ws (strip s) = split_ws s"
  by (simp add: split_ws_def strip_def split_aux_rstrip split_aux_lstrip)
section \<open>Contact numbers\<close>

lemma filter_clean_contact:
  "filter (\<lambda>c. \<not> contact_separator c) (clean_contact x) = clean_contact x"
proof -
  have "\<forall>c \<in> set (clean_contact x). \<not> contact_separator c"
    by (auto simp: clean_contact_def Let_def dest: in_set_dropD)
  then show ?thesis by (simp add: filter_id_conv)
qed

lemma clean_contact_idem: "clean_contact (clean_contact x) = clean_contact x"
proof -
  let ?f = "filter (\<lambda>c. \<not> contact_separator c)"
  show ?thesis
  proof (cases "prefix ''65'' (?f x) \<and> length (?f x) = 10")
    case True
    then have c: "clean_contact x = drop 2 (?f x)" by (simp add: clean_contact_def)
    then have "length (clean_contact x) = 8" using True by simp
    then show ?thesis
      using filter_clean_contact[of x] by (simp add: clean_contact_def[of "clean_contact x"])
  next
    case False
    then have c: "clean_contact x = ?f x" by (auto simp add: clean_contact_def)
    show ?thesis using False filter_clean_contact[of x] unfolding c
      by (auto simp add: clean_contact_def[of "?f x"])
  qed
qed

lemma isdigit_not_separator: "isdigit c \<Longrightarrow> \<not> contact_separator c"
  by (auto simp: isdigit_def contact_separator_def isspace_def ord_def)

lemma clean_contact_digits8:
  assumes "length n = 8" and "list_all isdigit n"
  shows "clean_contact n = n"
proof -
  have "filter (\<lambda>c. \<not> contact_separator c) n = n"
    using assms(2) by (auto simp: filter_id_conv list_all_iff isdigit_not_separator)
  then show ?thesis using assms(1) by (simp add: clean_contact_def)
qed

lemmas contact_eval =
  validate_contact_number_def clean_contact_def contact_separator_def strip_def lstrip_def
  rstrip_def isspace_def ord_def re_match_def isdigit_def

lemma contact_examples:
  "clean_contact ''+65 9123 4567'' = ''91234567''"
  "clean_contact ''91234567'' = ''91234567''"
  "clean_contact ''9123-4567'' = ''91234567''"
  "validate_contact_number ''+65 9123 4567'' = Inr ()"
  "validate_contact_number ''91234567'' = Inr ()"
  "validate_contact_number ''9123-4567'' = Inr ()"
  by (simp_all add: contact_eval)

text \<open>
  C5. Cleaning a contact number is idempotent; a number of eight digits is left as it is;
  and \<open>+65 9123 4567\<close>, \<open>91234567\<close> and \<open>9123-4567\<close> are all cleaned to \<open>91234567\<close>
  and pass \<open>validate_contact_number\<close>.
\<close>

theorem contact_normalization_idempotent:
  "clean_contact (clean_contact x) = clean_contact x
   \<and> (length n = 8 \<and> list_all isdigit n \<longrightarrow> clean_contact n = n)
   \<and> clean_contact ''+65 9123 4567'' = ''91234567''
   \<and> clean_contact ''91234567'' = ''91234567''
   \<and> clean_contact ''9123-4567'' = ''91234567''
   \<and> validate_contact_number ''+65 9123 4567'' = Inr ()
   \<and> validate_contact_number ''91234567'' = Inr ()
   \<and> validate_contact_number ''9123-4567'' = Inr ()"
  using clean_contact_idem clean_contact_digits8 contact_examples by blast

theorem contact_normalization_idempotent_witness:
  "length ''81234567'' = 8 \<and> list_all isdigit ''81234567''
   \<and> clean_contact ''81234567'' = ''81234567''
   \<and> clean_contact (clean_contact ''(65) 8123-4567'') = clean_contact ''(65) 8123-4567''"
  using contact_normalization_idempotent[of "''(65) 8123-4567''" "''81234567''"]
  by (simp add: isdigit_def ord_def)

section \<open>What each operation of the store does to the profiles\<close>

lemma users_data_profile_of: "users_data s v = Some p \<Longrightarrow> profile_of s v = p"
  by (simp add: profile_of_def)

lemma save_users_view [simp]:
  "profile_of (snd (save_users s)) v = profile_of s v"
  "disk_ok (snd (save_users s)) = disk_ok s"
  "fst (save_users s) = disk_ok s (writes s)"
  by (simp_all add: save_users_def profile_of_def)

lemma get_user_profile_view [simp]:
  "fst (get_user_profile s u) = profile_of s u"
  "profile_of (snd (get_user_profile s u)) v = profile_of s v"
  "disk_ok (snd (get_user_profile s u)) = disk_ok s"
  by (auto simp: get_user_profile_def profile_of_def save_users_def split: option.splits)

lemma get_user_profile_present:
  "users_data s u = Some p \<Longrightarrow> get_user_profile s u = (p, s)"
  by (simp add: get_user_profile_def)

lemma get_user_profile_exists:
  "\<exists>p. users_data (snd (get_user_profile s u)) u = Some p"
  by (auto simp: get_user_profile_def save_users_def split: option.splits)

lemma profile_of_users_data_upd [simp]:
  "profile_of (s\<lparr>users_data := (users_data s)(u \<mapsto> x)\<rparr>) v = (if v = u then x else profile_of s v)"
  by (simp add: profile_of_def)

lemma get_user_profile_twice [simp]:
  "snd (get_user_profile (snd (get_user_profile s u)) u) = snd (get_user_profile s u)"
  using get_user_profile_exists[of s u] by (auto simp: get_user_profile_present)

lemma update_user_profile_view [simp]:
  "profile_of (snd (update_user_profile s u f)) v =
     (if v = u then f (profile_of s u) else profile_of s v)"
  "disk_ok (snd (update_user_profile s u f)) = disk_ok s"
  "fst (update_user_profile s u f) = disk_ok s (writes (snd (get_user_profile s u)))"
  by (simp_all add: update_user_profile_def split_beta)

lemma is_user_registered_view [simp]:
  "fst (is_user_registered s u) = registered (profile_of s u)"
  "profile_of (snd (is_user_registered s u)) v = profile_of s v"
  "disk_ok (snd (is_user_registered s u)) = disk_ok s"
  by (simp_all add: is_user_registered_def split_beta)

lemma get_user_particulars_view [simp]:
  "fst (get_user_particulars s u) =
     (if registered (profile_of s u) then Some (particulars_of (profile_of s u)) else None)"
  "profile_of (snd (get_user_particulars s u)) v = profile_of s v"
  "disk_ok (snd (get_user_particulars s u)) = disk_ok s"
  by (simp_all add: get_user_particulars_def split_beta particulars_of_def)

lemma get_formatted_particulars_view [simp]:
  "profile_of (snd (get_formatted_particulars s u)) v = profile_of s v"
  "disk_ok (snd (get_formatted_particulars s u)) = disk_ok s"
  by (simp_all add: get_formatted_particulars_def split_beta split: option.splits)

lemma get_user_state_view [simp]:
  "fst (get_user_state s u) = state (profile_of s u)"
  "profile_of (snd (get_user_state s u)) v = profile_of s v"
  "disk_ok (snd (get_user_state s u)) = disk_ok s"
  by (simp_all add: get_user_state_def split_beta)

lemma set_user_state_view [simp]:
  "profile_of (set_user_state s u st) v =
     (if v = u
      then (if st = IDLE then (profile_of s u)\<lparr>state := IDLE, temp_data := Map.empty\<rparr>
            else (profile_of s u)\<lparr>state := st\<rparr>)
      else profile_of s v)"
  "disk_ok (set_user_state s u st) = disk_ok s"
  by (simp_all add: set_user_state_def split_beta)

lemma clear_user_state_view [simp]:
  "profile_of (clear_user_state s u) v =
     (if v = u then (profile_of s u)\<lparr>state := IDLE, temp_data := Map.empty\<rparr> else profile_of s v)"
  by (simp add: clear_user_state_def)

lemma store_user_temp_data_view [simp]:
  "profile_of (store_user_temp_data s u k x) v =
     (if v = u then (profile_of s u)\<lparr>temp_data := (temp_data (profile_of s u))(k \<mapsto> x)\<rparr>
      else profile_of s v)"
  "disk_ok (store_user_temp_data s u k x) = disk_ok s"
  by (simp_all add: store_user_temp_data_def split_beta)

lemma store_ir_data_view [simp]:
  "profile_of (store_ir_data s u k x) v =
     (if v = u then (profile_of s u)\<lparr>temp_data := (temp_data (profile_of s u))(k \<mapsto> x)\<rparr>
      else profile_of s v)"
  "disk_ok (store_ir_data s u k x) = disk_ok s"
  by (simp_all add: store_ir_data_def)

lemma get_user_temp_data_view [simp]:
  "fst (get_user_temp_data s u k) = temp_data (profile_of s u) k"
  "profile_of (snd (get_user_temp_data s u k)) v = profile_of s v"
  "disk_ok (snd (get_user_temp_data s u k)) = disk_ok s"
  by (simp_all add: get_user_temp_data_def split_beta)

lemma clear_user_temp_data_view [simp]:
  "profile_of (clear_user_temp_data s u) v =
     (if v = u then (profile_of s u)\<lparr>temp_data := Map.empty\<rparr> else profile_of s v)"
  by (simp add: clear_user_temp_data_def split_beta)

lemma start_ir_creation_view [simp]:
  "profile_of (start_ir_creation s u) v =
     (if v = u
      then (profile_of s u)\<lparr>state := AWAITING_IR_TYPE,
             temp_data := foldl (\<lambda>m k. m(k := None)) (temp_data (profile_of s u)) ir_keys\<rparr>
      else profile_of s v)"
  "disk_ok (start_ir_creation s u) = disk_ok s"
  by (simp_all add: start_ir_creation_def split_beta Let_def)

lemma get_comprehensive_ir_data_view [simp]:
  "fst (get_comprehensive_ir_data s u) = ir_data_of (temp_data (profile_of s u))"
  "profile_of (snd (get_comprehensive_ir_data s u)) v = profile_of s v"
  "disk_ok (snd (get_comprehensive_ir_data s u)) = disk_ok s"
  by (simp_all add: get_comprehensive_ir_data_def split_beta)

lemma complete_comprehensive_ir_creation_view [simp]:
  "fst (complete_comprehensive_ir_creation s u) = ir_data_of (temp_data (profile_of s u))"
  "profile_of (snd (complete_comprehensive_ir_creation s u)) v =
     (if v = u then (profile_of s u)\<lparr>state := IDLE, temp_data := Map.empty\<rparr> else profile_of s v)"
  "disk_ok (snd (complete_comprehensive_ir_creation s u)) = disk_ok s"
  by (simp_all add: complete_comprehensive_ir_creation_def split_beta)

lemma register_user_view [simp]:
  "profile_of (snd (register_user s u r n c un k)) v =
     (if v = u
      then (profile_of s u)\<lparr>rank := Some (strip (upper r)), full_name := Some (strip (upper n)),
             company := Some (strip (upper c)), unit := Some (strip (upper un)),
             contact_number := Some (clean_contact k), registered := True, state := IDLE,
             temp_data := Map.empty\<rparr>
      else profile_of s v)"
  "disk_ok (snd (register_user s u r n c un k)) = disk_ok s"
  "fst (register_user s u r n c un k) = disk_ok s (writes (snd (get_user_profile s u)))"
  by (simp_all add: register_user_def)

lemma update_single_field_view [simp]:
  "profile_of (snd (update_single_field s u f x)) v =
     (if v = u \<and> registered (profile_of s u)
      then set_field f (if f = ''contact_number'' then clean_contact x else strip (upper x))
             (profile_of s u)
      else profile_of s v)"
  "disk_ok (snd (update_single_field s u f x)) = disk_ok s"
  "fst (update_single_field s u f x) =
     (registered (profile_of s u) \<and> disk_ok s (writes (snd (get_user_profile s u))))"
  by (auto simp add: update_single_field_def split_beta)

lemma generate_ir_report_view [simp]:
  "fst (generate_ir_report s u) =
     (if registered (profile_of s u)
      then [Report (generate_comprehensive_ir_report (ir_data_of (temp_data (profile_of s u)))
                      (particulars_of (profile_of s u))), IRCompletion]
      else [SystemError])"
  "profile_of (snd (generate_ir_report s u)) v =
     (if v = u then (profile_of s u)\<lparr>state := IDLE, temp_data := Map.empty\<rparr> else profile_of s v)"
  by (simp_all add: generate_ir_report_def split_beta particulars_of_def split: option.splits)

section \<open>Menu selections and the start of a report\<close>

lemma example_service_view [simp]:
  "profile_of (example_service p ok) ''u'' = p"
  "disk_ok (example_service p ok) n = ok"
  "writes (example_service p ok) = 0"
  "users_data (example_service p ok) ''u'' = Some p"
  by (simp_all add: example_service_def profile_of_def)

lemma example_user_sel [simp]:
  "registered (example_user st td)" "state (example_user st td) = st"
  "temp_data (example_user st td) = td"
  by (simp_all add: example_user_def)

lemma ir_type_map_Some:
  "ir_type_map d = Some l \<Longrightarrow> d \<noteq> ''new_ir'' \<and> prefix ''ir_type_'' d \<and> l \<noteq> []"
  by (auto simp: ir_type_map_def split: if_splits)

lemma nature_type_map_Some:
  "nature_type_map d = Some l \<Longrightarrow>
     d \<noteq> ''new_ir'' \<and> \<not> prefix ''ir_type_'' d \<and> prefix ''nature_'' d \<and> l \<noteq> []"
  by (auto simp: nature_type_map_def split: if_splits)

lemma ir_type_selection:
  assumes "ir_type_map d = Some l"
  shows "fst (handle_callback s u d) = [SelectNature]"
    and "profile_of (snd (handle_callback s u d)) u =
           (profile_of s u)\<lparr>state := AWAITING_NATURE_TYPE,
              temp_data := (temp_data (profile_of s u))(''ir_type'' \<mapsto> l)\<rparr>"
  using ir_type_map_Some[OF assms] assms
  by (simp_all add: handle_callback_def handle_ir_type_selection_def truthy_def Let_def)

lemma nature_type_selection:
  assumes "nature_type_map d = Some l"
  shows "fst (handle_callback s u d) = [DateTimePrompt]"
    and "profile_of (snd (handle_callback s u d)) u =
           (profile_of s u)\<lparr>state := AWAITING_DATE_TIME,
              temp_data := (temp_data (profile_of s u))(''nature_type'' \<mapsto> l)\<rparr>"
  using nature_type_map_Some[OF assms] assms
  by (simp_all add: handle_callback_def handle_nature_type_selection_def truthy_def Let_def)

text \<open>
  C10. Menu selections are dispatched on their payload alone. In every state of the user,
  a recognised IR-type selection stores \<open>ir_type\<close> and sets the state to
  \<open>AWAITING_NATURE_TYPE\<close>, and a recognised nature-type selection stores
  \<open>nature_type\<close> and sets the state to \<open>AWAITING_DATE_TIME\<close>; nothing else of the
  profile changes.
\<close>

theorem menu_selection_ignores_state:
  "(ir_type_map d = Some l \<longrightarrow>
      fst (handle_callback s u d) = [SelectNature]
      \<and> profile_of (snd (handle_callback s u d)) u =
          (profile_of s u)\<lparr>state := AWAITING_NATURE_TYPE,
             temp_data := (temp_data (profile_of s u))(''ir_type'' \<mapsto> l)\<rparr>)
   \<and> (nature_type_map d = Some l \<longrightarrow>
      fst (handle_callback s u d) = [DateTimePrompt]
      \<and> profile_of (snd (handle_callback s u d)) u =
          (profile_of s u)\<lparr>state := AWAITING_DATE_TIME,
             temp_data := (temp_data (profile_of s u))(''nature_type'' \<mapsto> l)\<rparr>)"
  using ir_type_selection nature_type_selection by blast

theorem menu_selection_ignores_state_witness:
  "ir_type_map ''ir_type_update_and_final'' = Some ''UPDATE & FINAL''
   \<and> state (profile_of (example_service (example_user EDITING_RANK Map.empty) True) ''u'') = EDITING_RANK
   \<and> state (profile_of (snd (handle_callback (example_service (example_user EDITING_RANK Map.empty) True)
        ''u'' ''ir_type_update_and_final'')) ''u'') = AWAITING_NATURE_TYPE
   \<and> temp_data (profile_of (snd (handle_callback (example_service (example_user EDITING_RANK Map.empty) True)
        ''u'' ''ir_type_update_and_final'')) ''u'') ''ir_type'' = Some ''UPDATE & FINAL''"
  using menu_selection_ignores_state[of "''ir_type_update_and_final''" "''UPDATE & FINAL''"
          "example_service (example_user EDITING_RANK Map.empty) True" "''u''"]
  by (simp add: ir_type_map_def)

lemma foldl_pop: "foldl (\<lambda>m k. m(k := None)) m ks = (\<lambda>k. if k \<in> set ks then None else m k)"
  by (induction ks arbitrary: m) (auto simp: fun_eq_iff)

text \<open>
  C2 as stated fails: a registered user who is editing the rank and presses \<open>New IR\<close> is
  not rejected; the report flow starts.
\<close>

theorem new_ir_counterexample:
  "registered (profile_of (example_service (example_user EDITING_RANK Map.empty) True) ''u'')
   \<and> state (profile_of (example_service (example_user EDITING_RANK Map.empty) True) ''u'') = EDITING_RANK
   \<and> fst (handle_callback (example_service (example_user EDITING_RANK Map.empty) True) ''u'' ''new_ir'')
       = [SelectIRType]
   \<and> state (profile_of (snd (handle_callback (example_service (example_user EDITING_RANK Map.empty) True)
        ''u'' ''new_ir'')) ''u'') = AWAITING_IR_TYPE"
  by (simp add: handle_callback_def handle_new_ir_def split_beta)

text \<open>
  C2, amended. \<open>_handle_new_ir\<close> asks for the registration only: for a registered user,
  in whatever state, the report flow starts (state \<open>AWAITING_IR_TYPE\<close>, the nine draft
  keys removed from the scratch); for a user who is not registered the request is answered
  with the invitation to register and no profile changes.
\<close>

theorem new_ir_requires_registration_only:
  "(registered (profile_of s u) \<longrightarrow>
      fst (handle_callback s u ''new_ir'') = [SelectIRType]
      \<and> profile_of (snd (handle_callback s u ''new_ir'')) u =
          (profile_of s u)\<lparr>state := AWAITING_IR_TYPE,
             temp_data := (\<lambda>k. if k \<in> set ir_keys then None else temp_data (profile_of s u) k)\<rparr>)
   \<and> (\<not> registered (profile_of s u) \<longrightarrow>
      fst (handle_callback s u ''new_ir'') = [RegisterFirst]
      \<and> (\<forall>v. profile_of (snd (handle_callback s u ''new_ir'')) v = profile_of s v))"
  by (simp add: handle_callback_def handle_new_ir_def split_beta foldl_pop)

theorem new_ir_requires_registration_only_witness:
  "registered (profile_of (example_service (example_user AWAITING_LOCATION [''location'' \<mapsto> ''x'']) True) ''u'')
   \<and> profile_of (snd (handle_callback
         (example_service (example_user AWAITING_LOCATION [''location'' \<mapsto> ''x'']) True) ''u'' ''new_ir'')) ''u''
       = example_user AWAITING_IR_TYPE Map.empty
   \<and> \<not> registered (profile_of (example_service DEFAULT_USER_PROFILE True) ''u'')
   \<and> fst (handle_callback (example_service DEFAULT_USER_PROFILE True) ''u'' ''new_ir'') = [RegisterFirst]
   \<and> profile_of (snd (handle_callback (example_service DEFAULT_USER_PROFILE True) ''u'' ''new_ir'')) ''u''
       = DEFAULT_USER_PROFILE"
  using new_ir_requires_registration_only[of
          "example_service (example_user AWAITING_LOCATION [''location'' \<mapsto> ''x'']) True" "''u''"]
        new_ir_requires_registration_only[of "example_service DEFAULT_USER_PROFILE True" "''u''"]
  by (auto simp: example_user_def DEFAULT_USER_PROFILE_def ir_keys_def fun_eq_iff)

section \<open>Edits of one field, and the end of a report\<close>

lemma validate_strip [simp]:
  "validate_rank (strip x) = validate_rank x"
  "validate_name (strip x) = validate_name x"
  "validate_company (strip x) = validate_company x"
  "validate_unit (strip x) = validate_unit x"
  "validate_contact_number (strip x) = validate_contact_number x"
  "validate_ir_content (strip x) = validate_ir_content x"
  by (simp_all add: validate_rank_def validate_name_def validate_company_def validate_unit_def
        validate_contact_number_def validate_ir_content_def)

lemma filter_dropWhile: "(\<And>c. Q c \<Longrightarrow> \<not> P c) \<Longrightarrow> filter P (dropWhile Q xs) = filter P xs"
  by (induction xs) auto

lemma clean_contact_strip [simp]: "clean_contact (strip x) = clean_contact x"
proof -
  let ?P = "\<lambda>c. \<not> contact_separator c"
  have q: "\<And>c. isspace c \<Longrightarrow> \<not> ?P c" by (simp add: contact_separator_def)
  have "filter ?P (rstrip y) = filter ?P y" for y
  proof -
    have "rev (filter ?P (dropWhile isspace (rev y))) = rev (filter ?P (rev y))"
      using filter_dropWhile[of isspace ?P "rev y"] q by simp
    then show ?thesis by (simp add: rstrip_def rev_filter)
  qed
  moreover have "filter ?P (lstrip x) = filter ?P x"
    using filter_dropWhile[of isspace ?P x] q by (simp add: lstrip_def)
  ultimately show ?thesis by (simp add: clean_contact_def strip_def)
qed

lemma registered_present: "registered (profile_of s u) \<Longrightarrow> \<exists>p. users_data s u = Some p"
  by (auto simp: profile_of_def DEFAULT_USER_PROFILE_def split: option.splits)

lemma registered_no_create:
  assumes "registered (profile_of s u)"
  shows "snd (get_user_profile s u) = s" and "snd (get_user_state s u) = s"
  using registered_present[OF assms]
  by (auto simp: get_user_profile_present get_user_state_def)

lemma set_field_registered [simp]: "registered (set_field f v p) = registered p"
  by (simp add: set_field_def)

lemma handle_field_edit_ok:
  assumes "registered (profile_of s u)" and "validate x = Inr ()" and "disk_ok s (writes s)"
  shows "profile_of (snd (handle_field_edit validate f label s u x)) u =
           (set_field f (if f = ''contact_number'' then clean_contact x else strip (upper x))
              (profile_of s u))\<lparr>state := IDLE, temp_data := Map.empty\<rparr>"
  using assms by (simp add: handle_field_edit_def split_beta registered_no_create)

text \<open>
  C8. For a registered user in an \<open>EDITING_<field>\<close> state, an edit whose input passes the
  validator and whose write succeeds sets exactly that field of the particulars (to the
  normalised input) and returns the state to \<open>IDLE\<close>; the other four particulars and the
  flag \<open>registered\<close> keep their values.
\<close>

theorem single_field_edit:
  assumes "registered (profile_of s u)" and "disk_ok s (writes s)"
  shows "(state (profile_of s u) = EDITING_RANK \<and> validate_rank x = Inr () \<longrightarrow>
            profile_of (snd (handle_message s u x)) u =
              (profile_of s u)\<lparr>rank := Some (upper (strip x)),
                 state := IDLE, temp_data := Map.empty\<rparr>)
       \<and> (state (profile_of s u) = EDITING_NAME \<and> validate_name x = Inr () \<longrightarrow>
            profile_of (snd (handle_message s u x)) u =
              (profile_of s u)\<lparr>full_name := Some (upper (strip x)),
                 state := IDLE, temp_data := Map.empty\<rparr>)
       \<and> (state (profile_of s u) = EDITING_COMPANY \<and> validate_company x = Inr () \<longrightarrow>
            profile_of (snd (handle_message s u x)) u =
              (profile_of s u)\<lparr>company := Some (upper (strip x)),
                 state := IDLE, temp_data := Map.empty\<rparr>)
       \<and> (state (profile_of s u) = EDITING_UNIT \<and> validate_unit x = Inr () \<longrightarrow>
            profile_of (snd (handle_message s u x)) u =
              (profile_of s u)\<lparr>unit := Some (upper (strip x)),
                 state := IDLE, temp_data := Map.empty\<rparr>)
       \<and> (state (profile_of s u) = EDITING_CONTACT \<and> validate_contact_number x = Inr () \<longrightarrow>
            profile_of (snd (handle_message s u x)) u =
              (profile_of s u)\<lparr>contact_number := Some (clean_contact x),
                 state := IDLE, temp_data := Map.empty\<rparr>)"
  using assms
  by (simp add: handle_message_def split_beta registered_no_create handle_field_edit_ok
        handle_rank_edit_def handle_name_edit_def handle_company_edit_def handle_unit_edit_def
        handle_contact_edit_def set_field_def strip_upper)

theorem single_field_edit_witness:
  "registered (profile_of (example_service (example_user EDITING_RANK Map.empty) True) ''u'')
   \<and> disk_ok (example_service (example_user EDITING_RANK Map.empty) True)
        (writes (example_service (example_user EDITING_RANK Map.empty) True))
   \<and> validate_rank '' lta '' = Inr ()
   \<and> profile_of (snd (handle_message (example_service (example_user EDITING_RANK Map.empty) True)
        ''u'' '' lta '')) ''u''
      = (example_user IDLE Map.empty)\<lparr>rank := Some ''LTA''\<rparr>"
proof -
  have v: "validate_rank '' lta '' = Inr ()" by code_simp
  have n: "upper (strip '' lta '') = ''LTA''" by code_simp
  show ?thesis
    using single_field_edit[of "example_service (example_user EDITING_RANK Map.empty) True" "''u''"
            "'' lta ''"] v n
    by (simp add: example_user_def)
qed








section \<open>The invariant of the idle state\<close>

lemma step_ok_same_view:
  "(\<And>v. profile_of s1 v = profile_of s v) \<Longrightarrow> step_ok s1 r \<Longrightarrow> step_ok s r"
  by (simp add: step_ok_def)

lemma step_ok_start: "step_ok s (start_command s u)"
  by (simp add: step_ok_def start_command_def split_beta)

lemma step_ok_input:
  "step_ok s (handle_rank_input s u x)"
  "step_ok s (handle_name_input s u x)"
  "step_ok s (handle_company_input s u x)"
  "step_ok s (handle_unit_input s u x)"
  "step_ok s (handle_date_time_input s u x)"
  "step_ok s (handle_serviceman_input s u x)"
  "step_ok s (handle_location_input s u x)"
  "step_ok s (handle_injury_input s u x)"
  by (simp_all add: step_ok_def handle_rank_input_def handle_name_input_def
        handle_company_input_def handle_unit_input_def handle_date_time_input_def
        handle_serviceman_input_def handle_location_input_def handle_injury_input_def
        Let_def split_beta split: sum.splits)

lemma step_ok_contact: "step_ok s (handle_contact_input s u x)"
  by (simp add: step_ok_def handle_contact_input_def Let_def split_beta split: sum.splits)

lemma step_ok_description: "step_ok s (handle_description_input s u x)"
  by (simp add: step_ok_def handle_description_input_def Let_def split_beta split: sum.splits)

lemma step_ok_followup: "step_ok s (handle_followup_input s u x)"
  by (simp add: step_ok_def handle_followup_input_def Let_def split_beta split: sum.splits)

lemma set_field_keeps [simp]:
  "state (set_field f v p) = state p" "temp_data (set_field f v p) = temp_data p"
  by (simp_all add: set_field_def)

lemma step_ok_field_edit: "step_ok s (handle_field_edit val f l s u x)"
  by (cases "val x")
     (simp_all add: step_ok_def handle_field_edit_def Let_def split_beta)

lemma step_ok_dispatch: "step_ok s (message_dispatch st s u x)"
  by (cases st)
     (simp_all add: step_ok_input step_ok_contact step_ok_description step_ok_followup
        step_ok_field_edit handle_rank_edit_def handle_name_edit_def handle_company_edit_def
        handle_unit_edit_def handle_contact_edit_def, simp_all add: step_ok_def)

lemma step_ok_message: "step_ok s (handle_message s u x)"
proof -
  have "step_ok (snd (get_user_state s u))
          (message_dispatch (state (profile_of s u)) (snd (get_user_state s u)) u (strip x))"
    by (rule step_ok_dispatch)
  then have "step_ok s (message_dispatch (state (profile_of s u)) (snd (get_user_state s u)) u (strip x))"
    by (rule step_ok_same_view[rotated]) simp
  then show ?thesis by (simp add: handle_message_def split_beta)
qed

lemma step_ok_callback: "step_ok s (handle_callback s u d)"
  by (simp add: step_ok_def handle_callback_def handle_new_ir_def handle_ir_type_selection_def
        handle_nature_type_selection_def handle_my_details_def handle_edit_field_def
        handle_back_to_main_def Let_def split_beta split: option.splits)

lemma step_ok_event: "step_ok s (handle_event s e)"
  by (cases e) (simp_all add: step_ok_start step_ok_message step_ok_callback)

lemma idle_scratch_empty_view:
  "idle_scratch_empty s =
     (\<forall>v. state (profile_of s v) = IDLE \<longrightarrow> temp_data (profile_of s v) = Map.empty)"
proof
  assume a: "idle_scratch_empty s"
  show "\<forall>v. state (profile_of s v) = IDLE \<longrightarrow> temp_data (profile_of s v) = Map.empty"
  proof (intro allI impI)
    fix v assume i: "state (profile_of s v) = IDLE"
    show "temp_data (profile_of s v) = Map.empty"
    proof (cases "users_data s v")
      case None
      then show ?thesis by (simp add: profile_of_def DEFAULT_USER_PROFILE_def)
    next
      case (Some p)
      then show ?thesis using a i by (simp add: idle_scratch_empty_def profile_of_def)
    qed
  qed
next
  assume "\<forall>v. state (profile_of s v) = IDLE \<longrightarrow> temp_data (profile_of s v) = Map.empty"
  then show "idle_scratch_empty s"
    unfolding idle_scratch_empty_def using users_data_profile_of by metis
qed

lemma idle_scratch_empty_step:
  assumes "idle_scratch_empty s"
  shows "idle_scratch_empty (snd (handle_event s e))"
proof -
  let ?s' = "snd (handle_event s e)"
  have a: "temp_data (profile_of s v) = Map.empty" if "state (profile_of s v) = IDLE" for v
    using assms that by (simp add: idle_scratch_empty_view)
  have b: "(state (profile_of ?s' v) = state (profile_of s v)
             \<and> temp_data (profile_of ?s' v) = temp_data (profile_of s v))
           \<or> (state (profile_of ?s' v) = IDLE \<longrightarrow> temp_data (profile_of ?s' v) = Map.empty)" for v
    using step_ok_event[of s e] by (simp add: step_ok_def)
  have "temp_data (profile_of ?s' v) = Map.empty" if i: "state (profile_of ?s' v) = IDLE" for v
  proof (cases "state (profile_of ?s' v) = state (profile_of s v)
             \<and> temp_data (profile_of ?s' v) = temp_data (profile_of s v)")
    case True
    then show ?thesis using a[of v] i by simp
  next
    case False
    then show ?thesis using b[of v] i by blast
  qed
  then show ?thesis by (simp add: idle_scratch_empty_view)
qed

lemma idle_scratch_empty_run: "idle_scratch_empty s \<Longrightarrow> idle_scratch_empty (run s es)"
  by (induction es arbitrary: s) (simp_all add: idle_scratch_empty_step)

lemma to_idle_empties:
  assumes "state (profile_of s v) \<noteq> IDLE"
    and "state (profile_of (snd (handle_event s e)) v) = IDLE"
  shows "temp_data (profile_of (snd (handle_event s e)) v) = Map.empty"
proof -
  have "(state (profile_of (snd (handle_event s e)) v) = state (profile_of s v)
          \<and> temp_data (profile_of (snd (handle_event s e)) v) = temp_data (profile_of s v))
        \<or> (state (profile_of (snd (handle_event s e)) v) = IDLE
             \<longrightarrow> temp_data (profile_of (snd (handle_event s e)) v) = Map.empty)"
    using step_ok_event[of s e] by (simp add: step_ok_def)
  then show ?thesis using assms by auto
qed

lemma idle_scratch_empty_fresh:
  "idle_scratch_empty \<lparr>users_data = Map.empty, disk_ok = d, writes = n\<rparr>"
  by (simp add: idle_scratch_empty_def)

text \<open>
  C9. An idle user has an empty scratch: the invariant holds in the empty store and is
  kept by every inbound event (\<open>/start\<close>, a text, a menu selection), so it holds after
  every sequence of events; an event that takes a user to \<open>IDLE\<close> leaves that user's
  scratch empty; and \<open>set_user_state\<close> to idle, \<open>clear_user_state\<close>,
  \<open>complete_comprehensive_ir_creation\<close> and \<open>register_user\<close> all empty the scratch.
\<close>

theorem idle_implies_empty_scratch:
  "idle_scratch_empty \<lparr>users_data = Map.empty, disk_ok = d, writes = n\<rparr>
   \<and> (idle_scratch_empty s \<longrightarrow>
        idle_scratch_empty (snd (handle_event s e)) \<and> idle_scratch_empty (run s es))
   \<and> (state (profile_of s v) \<noteq> IDLE \<and> state (profile_of (snd (handle_event s e)) v) = IDLE
        \<longrightarrow> temp_data (profile_of (snd (handle_event s e)) v) = Map.empty)
   \<and> temp_data (profile_of (set_user_state s u IDLE) u) = Map.empty
   \<and> temp_data (profile_of (clear_user_state s u) u) = Map.empty
   \<and> temp_data (profile_of (snd (complete_comprehensive_ir_creation s u)) u) = Map.empty
   \<and> temp_data (profile_of (snd (register_user s u r nm c un k)) u) = Map.empty"
proof (intro conjI impI)
  show "idle_scratch_empty \<lparr>users_data = Map.empty, disk_ok = d, writes = n\<rparr>"
    by (rule idle_scratch_empty_fresh)
next
  assume "idle_scratch_empty s"
  then show "idle_scratch_empty (snd (handle_event s e))" by (rule idle_scratch_empty_step)
next
  assume "idle_scratch_empty s"
  then show "idle_scratch_empty (run s es)" by (rule idle_scratch_empty_run)
next
  assume "state (profile_of s v) \<noteq> IDLE \<and> state (profile_of (snd (handle_event s e)) v) = IDLE"
  then show "temp_data (profile_of (snd (handle_event s e)) v) = Map.empty"
    using to_idle_empties by blast
qed simp_all

theorem idle_implies_empty_scratch_witness:
  "idle_scratch_empty (example_service (example_user AWAITING_FOLLOWUP [''ir_type'' \<mapsto> ''UPDATE'']) True)
   \<and> idle_scratch_empty (run (example_service
        (example_user AWAITING_FOLLOWUP [''ir_type'' \<mapsto> ''UPDATE'']) True) [Message ''u'' ''done''])
   \<and> state (profile_of (example_service
        (example_user AWAITING_FOLLOWUP [''ir_type'' \<mapsto> ''UPDATE'']) True) ''u'') \<noteq> IDLE
   \<and> state (profile_of (snd (handle_event (example_service
        (example_user AWAITING_FOLLOWUP [''ir_type'' \<mapsto> ''UPDATE'']) True) (Message ''u'' ''done''))) ''u'') = IDLE
   \<and> temp_data (profile_of (snd (handle_event (example_service
        (example_user AWAITING_FOLLOWUP [''ir_type'' \<mapsto> ''UPDATE'']) True) (Message ''u'' ''done''))) ''u'')
       = Map.empty"
proof -
  let ?s = "example_service (example_user AWAITING_FOLLOWUP [''ir_type'' \<mapsto> ''UPDATE'']) True"
  let ?e = "Message ''u'' ''done''"
  have v: "validate_ir_content (strip ''done'') = Inr ()" by code_simp
  have i: "idle_scratch_empty ?s"
    by (auto simp: idle_scratch_empty_def example_service_def split: if_splits)
  have n: "state (profile_of ?s ''u'') \<noteq> IDLE" by simp
  have st: "state (profile_of (snd (handle_event ?s ?e)) ''u'') = IDLE"
    using v by (simp add: handle_message_def split_beta handle_followup_input_def)
  note t = idle_implies_empty_scratch[of "\<lambda>_. True" 0 ?s ?e "[?e]" "''u''" "''u''" "[]" "[]" "[]" "[]" "[]"]
  have r: "idle_scratch_empty (run ?s [?e])" using t i by blast
  have m: "temp_data (profile_of (snd (handle_event ?s ?e)) ''u'') = Map.empty"
    using t n st by blast
  show ?thesis using i r n st m by blast
qed

section \<open>Writes of the data file that fail\<close>

lemma same_view_disk [simp]: "same_view (s\<lparr>disk_ok := d, writes := n\<rparr>) s"
  by (simp add: same_view_def profile_of_def)

lemma same_formatted:
  "same_view s t \<Longrightarrow> fst (get_formatted_particulars s u) = fst (get_formatted_particulars t u)"
  by (simp add: same_view_def get_formatted_particulars_def split_beta split: option.splits)

lemma same_start: "same_view s t \<Longrightarrow> same_result (start_command s u) (start_command t u)"
  using same_formatted[of "snd (is_user_registered s u)" "snd (is_user_registered t u)" u]
  by (simp add: same_result_def same_view_def start_command_def split_beta)

lemma same_input:
  assumes "same_view s t"
  shows "same_result (handle_rank_input s u x) (handle_rank_input t u x)"
    and "same_result (handle_name_input s u x) (handle_name_input t u x)"
    and "same_result (handle_company_input s u x) (handle_company_input t u x)"
    and "same_result (handle_unit_input s u x) (handle_unit_input t u x)"
    and "same_result (handle_date_time_input s u x) (handle_date_time_input t u x)"
    and "same_result (handle_serviceman_input s u x) (handle_serviceman_input t u x)"
    and "same_result (handle_location_input s u x) (handle_location_input t u x)"
    and "same_result (handle_injury_input s u x) (handle_injury_input t u x)"
    and "same_result (handle_description_input s u x) (handle_description_input t u x)"
    and "same_result (handle_followup_input s u x) (handle_followup_input t u x)"
  using assms
  by (simp_all add: same_result_def same_view_def handle_rank_input_def handle_name_input_def
        handle_company_input_def handle_unit_input_def handle_date_time_input_def
        handle_serviceman_input_def handle_location_input_def handle_injury_input_def
        handle_description_input_def handle_followup_input_def
        Let_def split_beta split: sum.splits)

lemma same_dispatch:
  assumes "same_view s t" and "\<not> checks_write st"
  shows "same_result (message_dispatch st s u x) (message_dispatch st t u x)"
  using assms(2) same_input[OF assms(1)]
  by (cases st) (simp_all add: checks_write_def, simp_all add: same_result_def assms(1))

lemma same_message:
  assumes "same_view s t" and "\<not> checks_write (state (profile_of s u))"
  shows "same_result (handle_message s u x) (handle_message t u x)"
proof -
  have v: "same_view (snd (get_user_state s u)) (snd (get_user_state t u))"
    using assms(1) by (simp add: same_view_def)
  have e: "state (profile_of t u) = state (profile_of s u)"
    using assms(1) by (simp add: same_view_def)
  show ?thesis
    using same_dispatch[OF v assms(2)] by (simp add: handle_message_def split_beta e)
qed

lemma same_callback:
  assumes "same_view s t"
  shows "same_result (handle_callback s u d) (handle_callback t u d)"
proof -
  have f: "fst (get_formatted_particulars s u) = fst (get_formatted_particulars t u)"
    using assms by (rule same_formatted)
  show ?thesis
    using assms f
    by (simp add: same_result_def same_view_def handle_callback_def handle_new_ir_def
          handle_ir_type_selection_def handle_nature_type_selection_def handle_my_details_def
          handle_edit_field_def handle_back_to_main_def Let_def split_beta split: option.splits)
qed

text \<open>
  Outside the terminal registration step and the single-field edits, no handler looks at
  the result of the write: for \<open>/start\<close>, every menu selection and every text in a state
  other than \<open>AWAITING_CONTACT\<close> and \<open>EDITING_<field>\<close>, the replies and all profiles
  after the event are the same whatever the writes of the data file do.
\<close>

lemma write_result_ignored:
  assumes "\<forall>u x. e = Message u x \<longrightarrow> \<not> checks_write (state (profile_of s u))"
  shows "same_result (handle_event (s\<lparr>disk_ok := d, writes := n\<rparr>) e) (handle_event s e)"
proof (cases e)
  case (Start u)
  then show ?thesis by (simp add: same_start)
next
  case (Message u x)
  then have "\<not> checks_write (state (profile_of s u))" using assms by blast
  then have "\<not> checks_write (state (profile_of (s\<lparr>disk_ok := d, writes := n\<rparr>) u))"
    by (simp add: profile_of_def)
  then show ?thesis using Message by (simp add: same_message)
next
  case (Callback u d)
  then show ?thesis by (simp add: same_callback)
qed

text \<open>
  So a valid rank sent while the data file cannot be written moves the user from
  \<open>AWAITING_RANK\<close> to \<open>AWAITING_NAME\<close> with the rank in the scratch, and the reply is
  the next prompt.
\<close>

lemma failed_write_advances:
  "\<not> disk_ok (example_service (DEFAULT_USER_PROFILE\<lparr>state := AWAITING_RANK\<rparr>) False)
        (writes (example_service (DEFAULT_USER_PROFILE\<lparr>state := AWAITING_RANK\<rparr>) False))
   \<and> fst (handle_message (example_service (DEFAULT_USER_PROFILE\<lparr>state := AWAITING_RANK\<rparr>) False)
        ''u'' ''cpl'') = [NamePrompt]
   \<and> state (profile_of (snd (handle_message
        (example_service (DEFAULT_USER_PROFILE\<lparr>state := AWAITING_RANK\<rparr>) False) ''u'' ''cpl'')) ''u'')
       = AWAITING_NAME
   \<and> temp_data (profile_of (snd (handle_message
        (example_service (DEFAULT_USER_PROFILE\<lparr>state := AWAITING_RANK\<rparr>) False) ''u'' ''cpl'')) ''u'')
        ''rank'' = Some ''CPL''"
proof -
  have v: "validate_rank (strip ''cpl'') = Inr ()" by code_simp
  have n: "strip (upper (strip ''cpl'')) = ''CPL''" by code_simp
  show ?thesis using v n
    by (simp add: handle_message_def split_beta handle_rank_input_def)
qed

text \<open>
  C1. At the terminal registration step the result of the write is looked at, but only
  after \<open>_update_user_profile\<close> has changed the record: for a user in
  \<open>AWAITING_CONTACT\<close> with the four other values staged, a valid contact number sent
  while the data file cannot be written is answered by the system error, and yet the
  record is registered, holds the five particulars, is in state \<open>IDLE\<close> and has lost
  its scratch; the same input sent again is answered by the hint to use \<open>/start\<close>. The
  transition has failed for the user and has been carried out on the record.
\<close>

theorem failed_registration_write:
  "\<not> disk_ok (example_service
          ((DEFAULT_USER_PROFILE\<lparr>state := AWAITING_CONTACT,
              temp_data := [''rank'' \<mapsto> ''CPL'', ''full_name'' \<mapsto> ''TAN'',
                            ''company'' \<mapsto> ''ALPHA'', ''unit'' \<mapsto> ''1 SIR'']\<rparr>)) False) 0
   \<and> fst (handle_message (example_service
          ((DEFAULT_USER_PROFILE\<lparr>state := AWAITING_CONTACT,
              temp_data := [''rank'' \<mapsto> ''CPL'', ''full_name'' \<mapsto> ''TAN'',
                            ''company'' \<mapsto> ''ALPHA'', ''unit'' \<mapsto> ''1 SIR'']\<rparr>)) False)
          ''u'' ''91234567'') = [SystemError]
   \<and> profile_of (snd (handle_message (example_service
          ((DEFAULT_USER_PROFILE\<lparr>state := AWAITING_CONTACT,
              temp_data := [''rank'' \<mapsto> ''CPL'', ''full_name'' \<mapsto> ''TAN'',
                            ''company'' \<mapsto> ''ALPHA'', ''unit'' \<mapsto> ''1 SIR'']\<rparr>)) False)
          ''u'' ''91234567'')) ''u''
       = \<lparr>rank = Some ''CPL'', full_name = Some ''TAN'', company = Some ''ALPHA'',
          unit = Some ''1 SIR'', contact_number = Some ''91234567'', registered = True,
          state = IDLE, temp_data = Map.empty\<rparr>
   \<and> fst (handle_message (snd (handle_message (example_service
          ((DEFAULT_USER_PROFILE\<lparr>state := AWAITING_CONTACT,
              temp_data := [''rank'' \<mapsto> ''CPL'', ''full_name'' \<mapsto> ''TAN'',
                            ''company'' \<mapsto> ''ALPHA'', ''unit'' \<mapsto> ''1 SIR'']\<rparr>)) False)
          ''u'' ''91234567'')) ''u'' ''91234567'') = [UseStart]"
proof -
  let ?s = "example_service
          ((DEFAULT_USER_PROFILE\<lparr>state := AWAITING_CONTACT,
              temp_data := [''rank'' \<mapsto> ''CPL'', ''full_name'' \<mapsto> ''TAN'',
                            ''company'' \<mapsto> ''ALPHA'', ''unit'' \<mapsto> ''1 SIR'']\<rparr>)) False"
  have v: "validate_contact_number (strip ''91234567'') = Inr ()" by code_simp
  have n: "strip (upper ''CPL'') = ''CPL''" "strip (upper ''TAN'') = ''TAN''"
    "strip (upper ''ALPHA'') = ''ALPHA''" "strip (upper ''1 SIR'') = ''1 SIR''"
    "clean_contact (strip ''91234567'') = ''91234567''"
    by code_simp+
  have d: "\<not> disk_ok ?s 0" by (simp add: example_service_def)
  have r: "fst (handle_message ?s ''u'' ''91234567'') = [SystemError]"
    and p: "profile_of (snd (handle_message ?s ''u'' ''91234567'')) ''u''
       = \<lparr>rank = Some ''CPL'', full_name = Some ''TAN'', company = Some ''ALPHA'',
          unit = Some ''1 SIR'', contact_number = Some ''91234567'', registered = True,
          state = IDLE, temp_data = Map.empty\<rparr>"
    using v n
    by (simp_all add: handle_message_def split_beta handle_contact_input_def truthy_def
          DEFAULT_USER_PROFILE_def)
  have q: "fst (handle_message (snd (handle_message ?s ''u'' ''91234567'')) ''u'' ''91234567'')
             = [UseStart]"
    unfolding handle_message_def[of "snd (handle_message ?s ''u'' ''91234567'')"]
    by (simp add: split_beta p)
  show ?thesis using d r p q by blast
qed

text \<open>
  The single-field edits look at the result in the same way: a valid new rank sent in
  \<open>EDITING_RANK\<close> while the data file cannot be written is answered by the system
  error, the rank of the record is the new one, and the state is still \<open>EDITING_RANK\<close>.
\<close>

lemma failed_edit_write:
  "fst (handle_message (example_service (example_user EDITING_RANK Map.empty) False)
          ''u'' ''lta'') = [SystemError]
   \<and> profile_of (snd (handle_message (example_service (example_user EDITING_RANK Map.empty) False)
          ''u'' ''lta'')) ''u''
       = (example_user EDITING_RANK Map.empty)\<lparr>rank := Some ''LTA''\<rparr>"
proof -
  have v: "validate_rank (strip ''lta'') = Inr ()" by code_simp
  have n: "upper (strip ''lta'') = ''LTA''" "strip ''LTA'' = ''LTA''" by code_simp+
  show ?thesis using v n
    by (simp add: handle_message_def split_beta handle_rank_edit_def handle_field_edit_def
          set_field_def)
qed
section \<open>The date and time of the incident\<close>

lemma isspace_LF [simp]: "isspace (CHR 0x0A)"
  by (simp add: isspace_def ord_def)

lemma date_pattern_iff:
  assumes "\<forall>c\<in>set d. \<not> isspace c"
  shows "re_match DATE_PATTERN d = (length d = 6 \<and> list_all isdigit d)"
proof -
  have "drop 6 d \<noteq> [CHR 0x0A]"
  proof
    assume "drop 6 d = [CHR 0x0A]"
    then have "CHR 0x0A \<in> set (drop 6 d)" by simp
    then have "CHR 0x0A \<in> set d" by (rule in_set_dropD)
    then show False using assms by auto
  qed
  then show ?thesis
    by (auto simp: re_match_def DATE_PATTERN_def)
qed

lemma time_pattern_unfold:
  "re_match TIME_PATTERN T =
     (4 \<le> length T \<and> list_all isdigit (take 4 T)
      \<and> drop 4 T \<in> {''HR'', ''HRS'', ''HR'' @ [CHR 0x0A], ''HRS'' @ [CHR 0x0A]})"
  by (auto simp: re_match_def TIME_PATTERN_def split: list.splits if_splits)

lemma time_pattern_iff:
  assumes "\<forall>c\<in>set T. \<not> isspace c"
  shows "re_match TIME_PATTERN T =
           (length (take 4 T) = 4 \<and> list_all isdigit (take 4 T)
            \<and> (T = take 4 T @ ''HR'' \<or> T = take 4 T @ ''HRS''))"
proof -
  have n: "CHR 0x0A \<notin> set (drop 4 T)"
  proof
    assume "CHR 0x0A \<in> set (drop 4 T)"
    then have "CHR 0x0A \<in> set T" by (rule in_set_dropD)
    then show False using assms by auto
  qed
  have a: "drop 4 T \<noteq> ''HR'' @ [CHR 0x0A]" "drop 4 T \<noteq> ''HRS'' @ [CHR 0x0A]"
    using n by auto
  have e: "(T = take 4 T @ r) = (drop 4 T = r)" for r
    by (metis append_take_drop_id same_append_eq)
  show ?thesis using a by (auto simp: time_pattern_unfold e)
qed

lemma upper_nospace: "(\<forall>c\<in>set (upper s). \<not> isspace c) = (\<forall>c\<in>set s. \<not> isspace c)"
  by (simp add: upper_def)

lemma split_ws_empty: "strip s = [] \<Longrightarrow> split_ws s = []"
  using split_ws_strip[of s] by (simp add: split_ws_def)

text \<open>
  C3 as stated fails: \<open>TIME_PATTERN\<close> is \<open>\d{4}HRS?\<close>, four digits, then \<open>HR\<close>, then
  an optional \<open>S\<close>. So \<open>160625 1730\<close>, which the rule of the specification accepts,
  is refused, and \<open>160625 1730HR\<close>, which that rule refuses, is accepted.
\<close>

theorem date_time_counterexample:
  "spec_date_time_ok ''160625 1730''
   \<and> validate_date_time ''160625 1730'' = Inl TimeFormat
   \<and> \<not> spec_date_time_ok ''160625 1730HR''
   \<and> validate_date_time ''160625 1730HR'' = Inr (''160625'', ''1730'')"
proof -
  have 1: "spec_date_time_ok ''160625 1730''" by code_simp
  have 2: "validate_date_time ''160625 1730'' = Inl TimeFormat" by code_simp
  have 3: "\<not> spec_date_time_ok ''160625 1730HR''" by code_simp
  have 4: "validate_date_time ''160625 1730HR'' = Inr (''160625'', ''1730'')" by code_simp
  show ?thesis using 1 2 3 4 by blast
qed

text \<open>
  C3, amended. \<open>validate_date_time\<close> succeeds with the parts \<open>(d, t)\<close> exactly when the
  input splits at white space into two tokens, the first is \<open>d\<close>, six digits with the day
  in 1..31 and the month in 1..12 (no check of the month's length), and the second, in
  upper case, is the four digits \<open>t\<close> followed by \<open>HR\<close> or by \<open>HRS\<close>, with the hour at
  most 23 and the minute at most 59.
\<close>

theorem date_time_validator:
  "(validate_date_time inp = Inr (d, t)) =
     (\<exists>tok. split_ws inp = [d, tok]
        \<and> length d = 6 \<and> list_all isdigit d
        \<and> 1 \<le> py_int (take 2 d) \<and> py_int (take 2 d) \<le> 31
        \<and> 1 \<le> py_int (take 2 (drop 2 d)) \<and> py_int (take 2 (drop 2 d)) \<le> 12
        \<and> length t = 4 \<and> list_all isdigit t
        \<and> (upper tok = t @ ''HR'' \<or> upper tok = t @ ''HRS'')
        \<and> py_int (take 2 t) \<le> 23 \<and> py_int (drop 2 t) \<le> 59)"
proof (cases "\<exists>p0 p1. split_ws inp = [p0, p1]")
  case False
  then have "validate_date_time inp \<noteq> Inr (d, t)"
    by (auto simp: validate_date_time_def split_ws_strip Let_def split: list.splits if_splits)
  then show ?thesis using False by auto
next
  case True
  then obtain p0 p1 where s: "split_ws inp = [p0, p1]" by blast
  have ne: "strip inp \<noteq> []" using s split_ws_empty[of inp] by auto
  have n0: "\<forall>c\<in>set p0. \<not> isspace c" using split_ws_nospace[of p0 inp] s by simp
  have n1: "\<forall>c\<in>set (upper p1). \<not> isspace c"
    using split_ws_nospace[of p1 inp] s by (simp add: upper_nospace)
  let ?T = "upper p1"
  have v: "validate_date_time inp =
     (if \<not> (length p0 = 6 \<and> list_all isdigit p0) then Inl DateFormat
      else if \<not> (length (take 4 ?T) = 4 \<and> list_all isdigit (take 4 ?T)
                  \<and> (?T = take 4 ?T @ ''HR'' \<or> ?T = take 4 ?T @ ''HRS'')) then Inl TimeFormat
      else if py_int (take 2 (take 4 ?T)) > 23 \<or> py_int (drop 2 (take 4 ?T)) > 59
      then Inl TimeRange
      else if py_int (take 2 p0) < 1 \<or> py_int (take 2 p0) > 31
              \<or> py_int (take 2 (drop 2 p0)) < 1 \<or> py_int (take 2 (drop 2 p0)) > 12
      then Inl DateRange
      else Inr (p0, take 4 ?T))"
    using ne s date_pattern_iff[OF n0] time_pattern_iff[OF n1]
    by (simp add: validate_date_time_def split_ws_strip Let_def)
  show ?thesis
  proof
    assume a: "validate_date_time inp = Inr (d, t)"
    then have d: "d = p0" and t: "t = take 4 ?T" using v by (auto split: if_splits)
    show "\<exists>tok. split_ws inp = [d, tok]
        \<and> length d = 6 \<and> list_all isdigit d
        \<and> 1 \<le> py_int (take 2 d) \<and> py_int (take 2 d) \<le> 31
        \<and> 1 \<le> py_int (take 2 (drop 2 d)) \<and> py_int (take 2 (drop 2 d)) \<le> 12
        \<and> length t = 4 \<and> list_all isdigit t
        \<and> (upper tok = t @ ''HR'' \<or> upper tok = t @ ''HRS'')
        \<and> py_int (take 2 t) \<le> 23 \<and> py_int (drop 2 t) \<le> 59"
      apply (rule exI[of _ p1])
      using a v s unfolding d t by (auto split: if_splits)
  next
    assume "\<exists>tok. split_ws inp = [d, tok]
        \<and> length d = 6 \<and> list_all isdigit d
        \<and> 1 \<le> py_int (take 2 d) \<and> py_int (take 2 d) \<le> 31
        \<and> 1 \<le> py_int (take 2 (drop 2 d)) \<and> py_int (take 2 (drop 2 d)) \<le> 12
        \<and> length t = 4 \<and> list_all isdigit t
        \<and> (upper tok = t @ ''HR'' \<or> upper tok = t @ ''HRS'')
        \<and> py_int (take 2 t) \<le> 23 \<and> py_int (drop 2 t) \<le> 59"
    then have b: "d = p0" "length d = 6" "list_all isdigit d"
        "1 \<le> py_int (take 2 d)" "py_int (take 2 d) \<le> 31"
        "1 \<le> py_int (take 2 (drop 2 d))" "py_int (take 2 (drop 2 d)) \<le> 12"
        "length t = 4" "list_all isdigit t" "?T = t @ ''HR'' \<or> ?T = t @ ''HRS''"
        "py_int (take 2 t) \<le> 23" "py_int (drop 2 t) \<le> 59"
      using s by auto
    have tk: "take 4 ?T = t" using b(8) b(10) by auto
    show "validate_date_time inp = Inr (d, t)"
      unfolding v tk using b by auto
  qed
qed

theorem date_time_validator_witness:
  "split_ws ''310231 2359hrs'' = [''310231'', ''2359hrs'']
   \<and> upper ''2359hrs'' = ''2359'' @ ''HRS''
   \<and> validate_date_time ''310231 2359hrs'' = Inr (''310231'', ''2359'')"
proof -
  have s: "split_ws ''310231 2359hrs'' = [''310231'', ''2359hrs'']" by code_simp
  have u: "upper ''2359hrs'' = ''2359'' @ ''HRS''" by code_simp
  have d: "list_all isdigit ''310231''" "list_all isdigit ''2359''"
    by (simp_all add: isdigit_def ord_def)
  have n: "py_int (take 2 ''310231'') = 31" "py_int (take 2 (drop 2 ''310231'')) = 2"
          "py_int (take 2 ''2359'') = 23" "py_int (drop 2 ''2359'') = 59"
    by (simp_all add: py_int_def ord_def)
  have "\<exists>tok. split_ws ''310231 2359hrs'' = [''310231'', tok]
        \<and> length ''310231'' = 6 \<and> list_all isdigit ''310231''
        \<and> 1 \<le> py_int (take 2 ''310231'') \<and> py_int (take 2 ''310231'') \<le> 31
        \<and> 1 \<le> py_int (take 2 (drop 2 ''310231'')) \<and> py_int (take 2 (drop 2 ''310231'')) \<le> 12
        \<and> length ''2359'' = 4 \<and> list_all isdigit ''2359''
        \<and> (upper tok = ''2359'' @ ''HR'' \<or> upper tok = ''2359'' @ ''HRS'')
        \<and> py_int (take 2 ''2359'') \<le> 23 \<and> py_int (drop 2 ''2359'') \<le> 59"
    apply (rule exI[of _ "''2359hrs''"])
    using s u d n by simp
  then have "validate_date_time ''310231 2359hrs'' = Inr (''310231'', ''2359'')"
    using date_time_validator[of "''310231 2359hrs''" "''310231''" "''2359''"] by blast
  then show ?thesis using s u by blast
qed

section \<open>The details of the serviceman\<close>











section \<open>The registration, from a fresh record\<close>


lemma norm_norm [simp]: "strip (upper (upper (strip x))) = upper (strip x)"
  by (simp add: strip_upper)

lemma norm_strip [simp]: "strip (upper (strip x)) = upper (strip x)"
  by (simp add: strip_upper)








end
